theory Spec2Isabelle
  imports Complex_Main
begin

section \<open>Flight simulator: data model\<close>

text \<open>
  The component \<^verbatim>\<open>FlightSimulator\<close> of \<^verbatim>\<open>src/components/flight-simulator.tsx\<close>.
  A JavaScript \<^verbatim>\<open>number\<close> that holds a physical quantity is modelled as a \<open>real\<close>
  (the arithmetic of the source without rounding, and without NaN and the infinities);
  a number that is an index or a step id is a \<open>nat\<close>.
\<close>

record FlightParameters =
  airspeed :: real
  angleOfAttack :: real
  altitude :: real
  throttle :: real
  weight :: real
  wingArea :: real
  liftCoefficient :: real
  dragCoefficient :: real

record Forces =
  lift :: real
  drag :: real
  thrust :: real
  weightForce :: real

text \<open>The keys of \<^verbatim>\<open>FlightParameters\<close> (\<^verbatim>\<open>keyof FlightParameters\<close>).\<close>

datatype ParamKey =
  Airspeed | AngleOfAttack | Altitude | Throttle | Weight | WingArea
  | LiftCoefficient | DragCoefficient

fun getParam :: "FlightParameters \<Rightarrow> ParamKey \<Rightarrow> real" where
  "getParam p Airspeed = airspeed p"
| "getParam p AngleOfAttack = angleOfAttack p"
| "getParam p Altitude = altitude p"
| "getParam p Throttle = throttle p"
| "getParam p Weight = weight p"
| "getParam p WingArea = wingArea p"
| "getParam p LiftCoefficient = liftCoefficient p"
| "getParam p DragCoefficient = dragCoefficient p"

text \<open>\<^verbatim>\<open>({ ...prev, [key]: value })\<close>\<close>

fun setParam :: "FlightParameters \<Rightarrow> ParamKey \<Rightarrow> real \<Rightarrow> FlightParameters" where
  "setParam p Airspeed v = p\<lparr>airspeed := v\<rparr>"
| "setParam p AngleOfAttack v = p\<lparr>angleOfAttack := v\<rparr>"
| "setParam p Altitude v = p\<lparr>altitude := v\<rparr>"
| "setParam p Throttle v = p\<lparr>throttle := v\<rparr>"
| "setParam p Weight v = p\<lparr>weight := v\<rparr>"
| "setParam p WingArea v = p\<lparr>wingArea := v\<rparr>"
| "setParam p LiftCoefficient v = p\<lparr>liftCoefficient := v\<rparr>"
| "setParam p DragCoefficient v = p\<lparr>dragCoefficient := v\<rparr>"

section \<open>Physics calculations\<close>

text \<open>
  The body of the physics effect (lines 273--295), as a function of the parameters: the
  pair of the stall flag handed to \<^verbatim>\<open>setIsStalling\<close> and the record handed to
  \<^verbatim>\<open>setForces\<close>. The local constants keep the names of the source.
\<close>

definition airDensity :: "FlightParameters \<Rightarrow> real" where
  "airDensity p = 1.225 * exp (- altitude p / 8400)"

definition velocityMs :: "FlightParameters \<Rightarrow> real" where
  "velocityMs p = airspeed p / 3.6"

definition criticalAngle :: real where
  "criticalAngle = 15"

definition stalling :: "FlightParameters \<Rightarrow> bool" where
  "stalling p = (angleOfAttack p > criticalAngle)"

definition dynamicPressure :: "FlightParameters \<Rightarrow> real" where
  "dynamicPressure p = 0.5 * airDensity p * velocityMs p * velocityMs p"

definition physics :: "FlightParameters \<Rightarrow> bool \<times> Forces" where
  "physics p =
    (let lift0 = dynamicPressure p * wingArea p * liftCoefficient p;
         lift1 = (if stalling p then lift0 * 0.3 else lift0);
         drag1 = dynamicPressure p * wingArea p * dragCoefficient p;
         thrust1 = (throttle p / 100) * 120000;
         weight1 = weight p * 9.81
     in (stalling p,
         \<lparr>lift = lift1, drag = drag1, thrust = thrust1, weightForce = weight1\<rparr>))"

text \<open>The initial value of the \<^verbatim>\<open>parameters\<close> state (lines 202--211).\<close>

definition initialParameters :: FlightParameters where
  "initialParameters =
    \<lparr>airspeed = 250, angleOfAttack = 5, altitude = 3000, throttle = 75,
     weight = 41400, wingArea = 125, liftCoefficient = 1.2, dragCoefficient = 0.025\<rparr>"

section \<open>Reference data\<close>

text \<open>
  Strings are lists of bytes; a character of the source outside ASCII is written as its
  UTF-8 bytes. The pictographs and signs that the texts of the source use:
\<close>

definition warningSign :: string where
  "warningSign = [CHR 0xE2, CHR 0x9A, CHR 0xA0, CHR 0xEF, CHR 0xB8, CHR 0x8F]"

definition highVoltageSign :: string where
  "highVoltageSign = [CHR 0xE2, CHR 0x9A, CHR 0xA1]"

definition policeLightSign :: string where
  "policeLightSign = [CHR 0xF0, CHR 0x9F, CHR 0x9A, CHR 0xA8]"

definition chartDownSign :: string where
  "chartDownSign = [CHR 0xF0, CHR 0x9F, CHR 0x93, CHR 0x89]"

definition mountainSign :: string where
  "mountainSign = [CHR 0xF0, CHR 0x9F, CHR 0x8F, CHR 0x94, CHR 0xEF, CHR 0xB8, CHR 0x8F]"

definition checkMarkSign :: string where
  "checkMarkSign = [CHR 0xE2, CHR 0x9C, CHR 0x85]"

definition halfSign :: string where
  "halfSign = [CHR 0xC2, CHR 0xBD]"

definition timesSign :: string where
  "timesSign = [CHR 0xC3, CHR 0x97]"

definition squaredSign :: string where
  "squaredSign = [CHR 0xC2, CHR 0xB2]"

definition degreeSign :: string where
  "degreeSign = [CHR 0xC2, CHR 0xB0]"

text \<open>
  An entry of \<^verbatim>\<open>tutorialSteps\<close> (lines 145--196). The display texts
  \<^verbatim>\<open>description\<close> and \<^verbatim>\<open>explanation\<close> are only rendered and are left out. A
  field that an entry does not have (\<^verbatim>\<open>undefined\<close>) is \<open>None\<close>.
\<close>

record TutorialStep =
  stepId :: nat
  title :: string
  target :: ParamKey
  minValue :: "real option"
  maxValue :: "real option"
  isInformational :: "bool option"

definition tutorialSteps :: "TutorialStep list" where
  "tutorialSteps =
    [\<lparr>stepId = 1, title = ''Understanding Airspeed'', target = Airspeed,
      minValue = Some 250, maxValue = None, isInformational = None\<rparr>,
     \<lparr>stepId = 2, title = ''Angle of Attack Effects'', target = AngleOfAttack,
      minValue = Some 8, maxValue = Some 12, isInformational = None\<rparr>,
     \<lparr>stepId = 3, title = ''Stall Recognition'', target = AngleOfAttack,
      minValue = Some 16, maxValue = None, isInformational = None\<rparr>,
     \<lparr>stepId = 4, title = ''Altitude Effects'', target = Altitude,
      minValue = Some 8000, maxValue = None, isInformational = None\<rparr>,
     \<lparr>stepId = 5, title = ''Thrust vs Drag Balance - Flight Analysis'', target = Throttle,
      minValue = None, maxValue = None, isInformational = Some True\<rparr>]"

text \<open>An entry of \<^verbatim>\<open>aircraftPresets\<close> (lines 237--270), and the object itself.\<close>

record AircraftPreset =
  presetWeight :: real
  presetWingArea :: real
  presetName :: string
  modelPath :: string

definition aircraftPresets :: "(string \<times> AircraftPreset) list" where
  "aircraftPresets =
    [(''boeing-737'', \<lparr>presetWeight = 41400, presetWingArea = 125,
        presetName = ''Boeing 737-800'',
        modelPath = ''/3d/boeing_737_american_airlines.glb''\<rparr>),
     (''f16'', \<lparr>presetWeight = 8900, presetWingArea = 27.9,
        presetName = ''F-16 Falcon'', modelPath = ''/3d/f16-c_falcon.glb''\<rparr>),
     (''b1'', \<lparr>presetWeight = 86000, presetWingArea = 181,
        presetName = ''B-1 Lancer'', modelPath = ''/3d/b1.glb''\<rparr>),
     (''p51'', \<lparr>presetWeight = 3465, presetWingArea = 21.6,
        presetName = ''P-51 Mustang'', modelPath = ''/3d/p51.glb''\<rparr>),
     (''hot-air-balloon'', \<lparr>presetWeight = 800, presetWingArea = 500,
        presetName = ''Hot Air Balloon'', modelPath = ''/3d/hot_air_balloon.glb''\<rparr>)]"

section \<open>Component state\<close>

record Position =
  pos_x :: real
  pos_y :: real
  rotation :: real

record Velocity =
  vel_x :: real
  vel_y :: real
  angular :: real

text \<open>
  The \<^verbatim>\<open>useState\<close> cells of the component (lines 200--232), and the two resources
  that its effects hold: whether the interval of the animation effect is set
  (\<open>intervalActive\<close>), and the pending callbacks of \<^verbatim>\<open>setTimeout\<close> of the tutorial
  effect, oldest first, each with the \<^verbatim>\<open>currentTutorial\<close> that its closure captured
  (\<open>advanceTimers\<close>). The speech narration (\<^verbatim>\<open>lastAnnouncement\<close> and its timer) reads
  the state below and writes none of it; it is not modelled.
\<close>

record SimState =
  isRunning :: bool
  selectedAircraft :: string
  parameters :: FlightParameters
  forces :: Forces
  position :: Position
  velocity :: Velocity
  isStalling :: bool
  currentTutorial :: nat
  tutorialActive :: bool
  completedSteps :: "nat list"
  showHints :: bool
  parameterFeedback :: string
  currentTips :: "string list"
  showAdvancedMetrics :: bool
  selectedModel :: string
  voiceEnabled :: bool
  intervalActive :: bool
  advanceTimers :: "nat list"

definition initialState :: SimState where
  "initialState =
    \<lparr>isRunning = False,
     selectedAircraft = ''boeing-737'',
     parameters = initialParameters,
     forces = \<lparr>lift = 0, drag = 0, thrust = 0, weightForce = 0\<rparr>,
     position = \<lparr>pos_x = 400, pos_y = 300, rotation = 0\<rparr>,
     velocity = \<lparr>vel_x = 0, vel_y = 0, angular = 0\<rparr>,
     isStalling = False,
     currentTutorial = 0,
     tutorialActive = False,
     completedSteps = [],
     showHints = True,
     parameterFeedback = [],
     currentTips = [],
     showAdvancedMetrics = False,
     selectedModel = ''/3d/boeing_737_american_airlines.glb'',
     voiceEnabled = False,
     intervalActive = False,
     advanceTimers = []\<rparr>"

section \<open>Effects\<close>

text \<open>The physics effect (lines 273--295).\<close>

definition physicsEffect :: "SimState \<Rightarrow> SimState" where
  "physicsEffect s =
    s\<lparr>isStalling := fst (physics (parameters s)), forces := snd (physics (parameters s))\<rparr>"

text \<open>
  The animation effect (lines 298--332). Its cleanup clears the interval of the previous
  run; it sets a new one only when \<^verbatim>\<open>isRunning\<close> holds.
\<close>

definition animationEffect :: "SimState \<Rightarrow> SimState" where
  "animationEffect s = s\<lparr>intervalActive := isRunning s\<rparr>"

text \<open>
  The callback of the interval: one explicit Euler step. It reads \<^verbatim>\<open>forces\<close>,
  \<^verbatim>\<open>velocity\<close> and \<^verbatim>\<open>parameters\<close> (all among the dependencies of the effect, so the
  closure holds their current values) and the previous position.
\<close>

definition integrate :: "SimState \<Rightarrow> SimState" where
  "integrate s =
    (let prev = position s;
         dt = 0.1;
         mass = weight (parameters s);
         netVertical = lift (forces s) - weightForce (forces s);
         netHorizontal = thrust (forces s) - drag (forces s);
         accelX = netHorizontal / mass;
         accelY = - netVertical / mass;
         newVelX = vel_x (velocity s) + accelX * dt;
         newVelY = vel_y (velocity s) + accelY * dt;
         newX = max 50 (min 750 (pos_x prev + newVelX * dt * 100));
         newY = max 50 (min 550 (pos_y prev + newVelY * dt * 100));
         newRotation = angleOfAttack (parameters s) * (pi / 180)
     in s\<lparr>velocity := \<lparr>vel_x = newVelX, vel_y = newVelY, angular = 0\<rparr>,
          position := \<lparr>pos_x = newX, pos_y = newY, rotation = newRotation\<rparr>\<rparr>)"

text \<open>
  The feedback effect (lines 444--488). The pair is the value of the locals
  \<^verbatim>\<open>feedback\<close> and \<^verbatim>\<open>tips\<close>; each of the four conditional statements of the source
  is a function on that pair, applied in the order of the source.
\<close>

type_synonym Feedback = "string \<times> string list"

definition lowSpeedText :: string where
  "lowSpeedText = warningSign @ '' Low airspeed - insufficient lift for most aircraft.''"

definition highSpeedText :: string where
  "highSpeedText = highVoltageSign @ '' High speed flight - drag increases significantly.''"

definition nearStallText :: string where
  "nearStallText =
     warningSign @ '' Approaching critical angle of attack. Stall warning!''"

definition stallText :: string where
  "stallText =
     policeLightSign @ '' STALL CONDITION - Airflow separated from wing surface!''"

definition negativeAngleText :: string where
  "negativeAngleText =
     chartDownSign @ '' Negative angle of attack - aircraft will descend rapidly.''"

definition highAltitudeText :: string where
  "highAltitudeText =
     mountainSign @ '' High altitude - reduced air density affects performance.''"

definition balancedText :: string where
  "balancedText =
     checkMarkSign @ '' Excellent! Forces are well balanced for steady flight.''"

definition speedCheck :: "FlightParameters \<Rightarrow> Feedback \<Rightarrow> Feedback" where
  "speedCheck p fb =
    (if airspeed p < 150 then
       (lowSpeedText,
        snd fb @ [''Increase speed or angle of attack to generate more lift'',
          ''Formula: Lift = '' @ halfSign @ '' '' @ timesSign @ '' air density '' @ timesSign
            @ '' velocity'' @ squaredSign @ '' '' @ timesSign @ '' wing area '' @ timesSign
            @ '' lift coefficient''])
     else if airspeed p > 400 then
       (highSpeedText,
        snd fb @ [''Drag increases with velocity squared - doubling speed quadruples drag'',
          ''Consider reducing throttle to maintain efficient flight''])
     else fb)"

definition angleCheck :: "FlightParameters \<Rightarrow> Feedback \<Rightarrow> Feedback" where
  "angleCheck p fb =
    (if angleOfAttack p > 12 \<and> angleOfAttack p \<le> 15 then
       (nearStallText,
        snd fb @ [''Most aircraft stall between 15-18'' @ degreeSign @ '' angle of attack'',
          ''Reduce angle of attack or increase airspeed to maintain safe flight''])
     else if angleOfAttack p > 15 then
       (stallText,
        snd fb @ [''Immediately reduce angle of attack and increase throttle'',
          ''In real flight, push the nose down to recover from stall''])
     else if angleOfAttack p < 0 then
       (negativeAngleText,
        snd fb @
          [''Negative angles create downward lift - useful for aerobatic maneuvers''])
     else fb)"

definition altitudeCheck :: "FlightParameters \<Rightarrow> Feedback \<Rightarrow> Feedback" where
  "altitudeCheck p fb =
    (if altitude p > 8000 then
       (highAltitudeText,
        snd fb @ [''Air density at 10,000m is about 26% of sea level density'',
          ''Higher speeds or larger angles needed to maintain same lift''])
     else fb)"

definition balanceCheck :: "Forces \<Rightarrow> Feedback \<Rightarrow> Feedback" where
  "balanceCheck f fb =
    (let thrustDragDiff = \<bar>thrust f - drag f\<bar>;
         liftWeightDiff = \<bar>lift f - weightForce f\<bar>
     in if thrustDragDiff < 5000 \<and> liftWeightDiff < 10000 then
          (balancedText,
           snd fb @ [''This is ideal for cruise flight - minimal energy waste'',
             ''Small adjustments maintain altitude and speed efficiently''])
        else fb)"

definition classify :: "FlightParameters \<Rightarrow> Forces \<Rightarrow> Feedback" where
  "classify p f = balanceCheck f (altitudeCheck p (angleCheck p (speedCheck p ([], []))))"

definition feedbackEffect :: "SimState \<Rightarrow> SimState" where
  "feedbackEffect s =
    s\<lparr>parameterFeedback := fst (classify (parameters s) (forces s)),
      currentTips := snd (classify (parameters s) (forces s))\<rparr>"

text \<open>
  The tutorial effect (lines 490--514). A threshold is tested for truthiness before it is
  compared: \<^verbatim>\<open>undefined\<close> and \<open>0\<close> are falsy.
\<close>

definition truthy :: "real option \<Rightarrow> bool" where
  "truthy m = (case m of None \<Rightarrow> False | Some v \<Rightarrow> v \<noteq> 0)"

definition stepCompleted :: "TutorialStep \<Rightarrow> real \<Rightarrow> bool" where
  "stepCompleted st currentValue =
    (if truthy (minValue st) \<and> truthy (maxValue st) then
       (case (minValue st, maxValue st) of
          (Some mn, Some mx) \<Rightarrow> currentValue \<ge> mn \<and> currentValue \<le> mx
        | _ \<Rightarrow> False)
     else if truthy (minValue st) then
       (case minValue st of Some mn \<Rightarrow> currentValue \<ge> mn | None \<Rightarrow> False)
     else False)"

definition tutorialEffect :: "SimState \<Rightarrow> SimState" where
  "tutorialEffect s =
    (if \<not> tutorialActive s \<or> currentTutorial s \<ge> length tutorialSteps then s
     else
       let st = tutorialSteps ! currentTutorial s in
       if isInformational st = Some True then s
       else
         let currentValue = getParam (parameters s) (target st);
             completed = stepCompleted st currentValue
         in if completed \<and> stepId st \<notin> set (completedSteps s) then
              s\<lparr>completedSteps := completedSteps s @ [stepId st],
                advanceTimers := advanceTimers s @ [currentTutorial s]\<rparr>
            else s)"

text \<open>
  The callback handed to \<^verbatim>\<open>setTimeout\<close> (lines 508--512): the test is on the
  \<^verbatim>\<open>currentTutorial\<close> of the closure, the update on the current one.
\<close>

definition advanceCallback :: "nat \<Rightarrow> SimState \<Rightarrow> SimState" where
  "advanceCallback captured s =
    (if captured < length tutorialSteps - 1 then s\<lparr>currentTutorial := currentTutorial s + 1\<rparr>
     else s)"

text \<open>
  The effects in the order of the source. An effect of the source runs again only when one
  of its dependencies has changed; every effect here is a function of its dependencies
  that changes nothing when it is run a second time (\<open>settle_idem\<close> below), so running
  all of them after every event gives the state in which the component comes to rest.
\<close>

definition settle :: "SimState \<Rightarrow> SimState" where
  "settle s = tutorialEffect (feedbackEffect (animationEffect (physicsEffect s)))"

section \<open>Event handlers\<close>

definition resetSimulation :: "SimState \<Rightarrow> SimState" where
  "resetSimulation s =
    s\<lparr>isRunning := False,
      position := \<lparr>pos_x = 400, pos_y = 300, rotation = 0\<rparr>,
      velocity := \<lparr>vel_x = 0, vel_y = 0, angular = 0\<rparr>\<rparr>"

definition updateParameter :: "ParamKey \<Rightarrow> real \<Rightarrow> SimState \<Rightarrow> SimState" where
  "updateParameter key v s = s\<lparr>parameters := setParam (parameters s) key v\<rparr>"

definition selectAircraft :: "string \<Rightarrow> SimState \<Rightarrow> SimState" where
  "selectAircraft aircraftId s =
    (let s1 = s\<lparr>selectedAircraft := aircraftId\<rparr> in
     case map_of aircraftPresets aircraftId of
       None \<Rightarrow> s1
     | Some preset \<Rightarrow>
         let s2 = updateParameter WingArea (presetWingArea preset)
                    (updateParameter Weight (presetWeight preset) s1);
             s3 = (if aircraftId = ''hot-air-balloon'' then
                     updateParameter Throttle 50
                       (updateParameter AngleOfAttack 0 (updateParameter Airspeed 30 s2))
                   else s2)
         in s3\<lparr>selectedModel := modelPath preset\<rparr>)"

definition startTutorial :: "SimState \<Rightarrow> SimState" where
  "startTutorial s =
    resetSimulation (s\<lparr>tutorialActive := True, currentTutorial := 0, completedSteps := []\<rparr>)"

text \<open>
  The events of the component: a press of a button, a change of a slider, a choice of an
  aircraft, a tick of the interval of the animation effect, and the expiry of the oldest
  pending timeout of the tutorial effect (all timeouts have the same delay, so they expire
  in the order in which they were set).
\<close>

datatype Event =
  ToggleRunning
  | ResetSimulation
  | SliderChange ParamKey real
  | SelectAircraft string
  | StartTutorial
  | TutorialPrevious
  | TutorialNext
  | ToggleVoice
  | ToggleHints
  | ToggleAdvancedMetrics
  | Tick
  | AdvanceTimeout

text \<open>
  What each event does to the state. A control that is not rendered or is disabled, an
  interval that is not set and a timeout that is not pending cannot fire: the state stays
  as it is. The buttons Previous and Next are rendered only while the tutorial is active
  (line 633); Previous is disabled at step 0 (line 706).
\<close>

fun handle :: "Event \<Rightarrow> SimState \<Rightarrow> SimState" where
  "handle ToggleRunning s = s\<lparr>isRunning := \<not> isRunning s\<rparr>"
| "handle ResetSimulation s = resetSimulation s"
| "handle (SliderChange key v) s = updateParameter key v s"
| "handle (SelectAircraft aircraftId) s = selectAircraft aircraftId s"
| "handle StartTutorial s = startTutorial s"
| "handle TutorialPrevious s =
     (if tutorialActive s \<and> currentTutorial s \<noteq> 0
      then s\<lparr>currentTutorial := max 0 (currentTutorial s - 1)\<rparr> else s)"
| "handle TutorialNext s =
     (if tutorialActive s then
        (if currentTutorial s < length tutorialSteps - 1
         then s\<lparr>currentTutorial := currentTutorial s + 1\<rparr>
         else s\<lparr>tutorialActive := False\<rparr>)
      else s)"
| "handle ToggleVoice s = s\<lparr>voiceEnabled := \<not> voiceEnabled s\<rparr>"
| "handle ToggleHints s = s\<lparr>showHints := \<not> showHints s\<rparr>"
| "handle ToggleAdvancedMetrics s = s\<lparr>showAdvancedMetrics := \<not> showAdvancedMetrics s\<rparr>"
| "handle Tick s = (if intervalActive s then integrate s else s)"
| "handle AdvanceTimeout s =
     (case advanceTimers s of
        [] \<Rightarrow> s
      | captured # rest \<Rightarrow> advanceCallback captured (s\<lparr>advanceTimers := rest\<rparr>))"

text \<open>
  One step of the component: the handler of the event, then the effects. Handler and
  effects run to completion before the next event is taken.
\<close>

definition step :: "SimState \<Rightarrow> Event \<Rightarrow> SimState" where
  "step s e = settle (handle e s)"

definition run :: "SimState \<Rightarrow> Event list \<Rightarrow> SimState" where
  "run s es = foldl step s es"

text \<open>The state after the first render: the initial values, then the effects.\<close>

definition mounted :: SimState where
  "mounted = settle initialState"

text \<open>
  The \<^verbatim>\<open>min\<close> and \<^verbatim>\<open>max\<close> that the component gives to each of its four sliders
  (lines 988--1058); there is no slider for the other parameters.
\<close>

fun sliderRange :: "ParamKey \<Rightarrow> (real \<times> real) option" where
  "sliderRange Airspeed = Some (50, 500)"
| "sliderRange AngleOfAttack = Some (-10, 25)"
| "sliderRange Altitude = Some (0, 12000)"
| "sliderRange Throttle = Some (0, 100)"
| "sliderRange _ = None"

text \<open>
  Modelled from the spec: the widget \<^verbatim>\<open>Slider\<close> of \<^verbatim>\<open>@/components/ui/slider\<close> is not
  among the sources. ``All inputs are pre-clamped by the input widgets' own ranges'':
  the value that a slider hands to \<^verbatim>\<open>onValueChange\<close> lies between its \<^verbatim>\<open>min\<close> and its
  \<^verbatim>\<open>max\<close>.
\<close>

definition sliderEmits :: "real \<Rightarrow> real \<Rightarrow> real \<Rightarrow> bool" where
  "sliderEmits lo hi v = (lo \<le> v \<and> v \<le> hi)"

text \<open>
  The events that the user interface can produce: a slider event comes from one of the
  four sliders with a value of its range, an aircraft is chosen among the keys of
  \<^verbatim>\<open>aircraftPresets\<close> (lines 894 and 913).
\<close>

fun wellFormed :: "Event \<Rightarrow> bool" where
  "wellFormed (SliderChange key v) =
     (case sliderRange key of None \<Rightarrow> False | Some (lo, hi) \<Rightarrow> sliderEmits lo hi v)"
| "wellFormed (SelectAircraft aircraftId) = (aircraftId \<in> set (map fst aircraftPresets))"
| "wellFormed _ = True"

inductive reachable :: "SimState \<Rightarrow> bool" where
  reachable_mounted: "reachable mounted"
| reachable_step: "reachable s \<Longrightarrow> wellFormed e \<Longrightarrow> reachable (step s e)"

text \<open>
  The checks of the feedback effect in the order of the source, the condition of each
  and the text that it assigns to \<^verbatim>\<open>feedback\<close>.
\<close>

datatype Check =
  LowSpeed | HighSpeed | NearStall | Stall | NegativeAngle | HighAltitude | BalancedForces

fun checkOrder :: "Check \<Rightarrow> nat" where
  "checkOrder LowSpeed = 0"
| "checkOrder HighSpeed = 1"
| "checkOrder NearStall = 2"
| "checkOrder Stall = 3"
| "checkOrder NegativeAngle = 4"
| "checkOrder HighAltitude = 5"
| "checkOrder BalancedForces = 6"

fun checkGroup :: "Check \<Rightarrow> nat" where
  "checkGroup LowSpeed = 0"
| "checkGroup HighSpeed = 0"
| "checkGroup NearStall = 1"
| "checkGroup Stall = 1"
| "checkGroup NegativeAngle = 1"
| "checkGroup HighAltitude = 2"
| "checkGroup BalancedForces = 3"

fun matches :: "Check \<Rightarrow> FlightParameters \<Rightarrow> Forces \<Rightarrow> bool" where
  "matches LowSpeed p f = (airspeed p < 150)"
| "matches HighSpeed p f = (airspeed p > 400)"
| "matches NearStall p f = (angleOfAttack p > 12 \<and> angleOfAttack p \<le> 15)"
| "matches Stall p f = (angleOfAttack p > 15)"
| "matches NegativeAngle p f = (angleOfAttack p < 0)"
| "matches HighAltitude p f = (altitude p > 8000)"
| "matches BalancedForces p f =
     (\<bar>thrust f - drag f\<bar> < 5000 \<and> \<bar>lift f - weightForce f\<bar> < 10000)"

fun checkText :: "Check \<Rightarrow> string" where
  "checkText LowSpeed = lowSpeedText"
| "checkText HighSpeed = highSpeedText"
| "checkText NearStall = nearStallText"
| "checkText Stall = stallText"
| "checkText NegativeAngle = negativeAngleText"
| "checkText HighAltitude = highAltitudeText"
| "checkText BalancedForces = balancedText"

text \<open>
  The condition under which the tutorial effect records a step and sets a timeout, and
  the states in which no effect has anything left to do.
\<close>

definition tutorialFires :: "SimState \<Rightarrow> bool" where
  "tutorialFires s =
     (tutorialActive s \<and> currentTutorial s < length tutorialSteps
      \<and> isInformational (tutorialSteps ! currentTutorial s) \<noteq> Some True
      \<and> stepCompleted (tutorialSteps ! currentTutorial s)
           (getParam (parameters s) (target (tutorialSteps ! currentTutorial s)))
      \<and> stepId (tutorialSteps ! currentTutorial s) \<notin> set (completedSteps s))"

definition settled :: "SimState \<Rightarrow> bool" where
  "settled s =
     (forces s = snd (physics (parameters s))
      \<and> isStalling s = fst (physics (parameters s))
      \<and> intervalActive s = isRunning s
      \<and> parameterFeedback s = fst (classify (parameters s) (forces s))
      \<and> currentTips s = snd (classify (parameters s) (forces s))
      \<and> \<not> tutorialFires s)"

text \<open>
  The position and the velocity that \<^verbatim>\<open>resetSimulation\<close> writes, and the positions inside
  the bounds that the animation step clamps to.
\<close>

definition resetPosition :: Position where
  "resetPosition = \<lparr>pos_x = 400, pos_y = 300, rotation = 0\<rparr>"

definition resetVelocity :: Velocity where
  "resetVelocity = \<lparr>vel_x = 0, vel_y = 0, angular = 0\<rparr>"

definition inCanvas :: "Position \<Rightarrow> bool" where
  "inCanvas q = (50 \<le> pos_x q \<and> pos_x q \<le> 750 \<and> 50 \<le> pos_y q \<and> pos_y q \<le> 550)"

text \<open>
  The declared range of a tutorial step in the words of the specification: between
  \<^verbatim>\<open>minValue\<close> and \<^verbatim>\<open>maxValue\<close> when the step has both thresholds, at least
  \<^verbatim>\<open>minValue\<close> when it has only that one. It is compared below with \<open>stepCompleted\<close>,
  the test of the source.
\<close>

definition inDeclaredRange :: "TutorialStep \<Rightarrow> real \<Rightarrow> bool" where
  "inDeclaredRange st v =
     (case (minValue st, maxValue st) of
        (Some mn, Some mx) \<Rightarrow> mn \<le> v \<and> v \<le> mx
      | (Some mn, None) \<Rightarrow> mn \<le> v
      | (None, _) \<Rightarrow> False)"

section \<open>Effects: what each one leaves alone\<close>

lemma tutorialEffect_frame:
  "parameters (tutorialEffect s) = parameters s"
  "forces (tutorialEffect s) = forces s"
  "isStalling (tutorialEffect s) = isStalling s"
  "position (tutorialEffect s) = position s"
  "velocity (tutorialEffect s) = velocity s"
  "isRunning (tutorialEffect s) = isRunning s"
  "intervalActive (tutorialEffect s) = intervalActive s"
  "currentTutorial (tutorialEffect s) = currentTutorial s"
  "tutorialActive (tutorialEffect s) = tutorialActive s"
  "selectedAircraft (tutorialEffect s) = selectedAircraft s"
  "parameterFeedback (tutorialEffect s) = parameterFeedback s"
  "currentTips (tutorialEffect s) = currentTips s"
  by (simp_all add: tutorialEffect_def Let_def)

lemma feedbackEffect_frame:
  "parameters (feedbackEffect s) = parameters s"
  "forces (feedbackEffect s) = forces s"
  "isStalling (feedbackEffect s) = isStalling s"
  "position (feedbackEffect s) = position s"
  "velocity (feedbackEffect s) = velocity s"
  "isRunning (feedbackEffect s) = isRunning s"
  "intervalActive (feedbackEffect s) = intervalActive s"
  "currentTutorial (feedbackEffect s) = currentTutorial s"
  "tutorialActive (feedbackEffect s) = tutorialActive s"
  "completedSteps (feedbackEffect s) = completedSteps s"
  "advanceTimers (feedbackEffect s) = advanceTimers s"
  "selectedAircraft (feedbackEffect s) = selectedAircraft s"
  "parameterFeedback (feedbackEffect s) = fst (classify (parameters s) (forces s))"
  "currentTips (feedbackEffect s) = snd (classify (parameters s) (forces s))"
  by (simp_all add: feedbackEffect_def)

lemma animationEffect_frame:
  "parameters (animationEffect s) = parameters s"
  "forces (animationEffect s) = forces s"
  "isStalling (animationEffect s) = isStalling s"
  "position (animationEffect s) = position s"
  "velocity (animationEffect s) = velocity s"
  "isRunning (animationEffect s) = isRunning s"
  "intervalActive (animationEffect s) = isRunning s"
  "currentTutorial (animationEffect s) = currentTutorial s"
  "tutorialActive (animationEffect s) = tutorialActive s"
  "completedSteps (animationEffect s) = completedSteps s"
  "advanceTimers (animationEffect s) = advanceTimers s"
  "selectedAircraft (animationEffect s) = selectedAircraft s"
  by (simp_all add: animationEffect_def)

lemma physicsEffect_frame:
  "parameters (physicsEffect s) = parameters s"
  "forces (physicsEffect s) = snd (physics (parameters s))"
  "isStalling (physicsEffect s) = fst (physics (parameters s))"
  "position (physicsEffect s) = position s"
  "velocity (physicsEffect s) = velocity s"
  "isRunning (physicsEffect s) = isRunning s"
  "intervalActive (physicsEffect s) = intervalActive s"
  "currentTutorial (physicsEffect s) = currentTutorial s"
  "tutorialActive (physicsEffect s) = tutorialActive s"
  "completedSteps (physicsEffect s) = completedSteps s"
  "advanceTimers (physicsEffect s) = advanceTimers s"
  "selectedAircraft (physicsEffect s) = selectedAircraft s"
  by (simp_all add: physicsEffect_def)

lemmas effect_frame =
  tutorialEffect_frame feedbackEffect_frame animationEffect_frame physicsEffect_frame

lemma settle_frame:
  "parameters (settle s) = parameters s"
  "forces (settle s) = snd (physics (parameters s))"
  "isStalling (settle s) = fst (physics (parameters s))"
  "position (settle s) = position s"
  "velocity (settle s) = velocity s"
  "isRunning (settle s) = isRunning s"
  "intervalActive (settle s) = isRunning s"
  "currentTutorial (settle s) = currentTutorial s"
  "tutorialActive (settle s) = tutorialActive s"
  "selectedAircraft (settle s) = selectedAircraft s"
  "parameterFeedback (settle s) = fst (classify (parameters s) (snd (physics (parameters s))))"
  "currentTips (settle s) = snd (classify (parameters s) (snd (physics (parameters s))))"
  by (simp_all add: settle_def effect_frame)

section \<open>The tutorial effect\<close>

lemma tutorialEffect_eq:
  "tutorialEffect s =
     (if tutorialFires s
      then s\<lparr>completedSteps := completedSteps s @ [stepId (tutorialSteps ! currentTutorial s)],
             advanceTimers := advanceTimers s @ [currentTutorial s]\<rparr>
      else s)"
  unfolding tutorialEffect_def tutorialFires_def Let_def
  by (simp add: not_le)

lemma tutorialFires_after:
  "\<not> tutorialFires
       (s\<lparr>completedSteps := completedSteps s @ [stepId (tutorialSteps ! currentTutorial s)],
          advanceTimers := ts\<rparr>)"
  by (simp add: tutorialFires_def)

lemma tutorialFires_tutorialEffect: "\<not> tutorialFires (tutorialEffect s)"
proof (cases "tutorialFires s")
  case True
  then show ?thesis
    using tutorialFires_after [where s = s and ts = "advanceTimers s @ [currentTutorial s]"]
    by (simp add: tutorialEffect_eq)
next
  case False
  then show ?thesis by (simp add: tutorialEffect_eq)
qed

lemma tutorialEffect_idem: "tutorialEffect (tutorialEffect s) = tutorialEffect s"
  using tutorialFires_tutorialEffect [of s] tutorialEffect_eq [of "tutorialEffect s"]
  by simp

section \<open>Settled states\<close>

lemma settled_settle: "settled (settle s)"
  unfolding settled_def
  using tutorialFires_tutorialEffect [of "feedbackEffect (animationEffect (physicsEffect s))"]
  by (simp add: settle_frame) (simp add: settle_def)

lemma physicsEffect_settled: "settled s \<Longrightarrow> physicsEffect s = s"
  by (simp add: settled_def physicsEffect_def)

lemma animationEffect_settled: "settled s \<Longrightarrow> animationEffect s = s"
  by (simp add: settled_def animationEffect_def)

lemma feedbackEffect_settled: "settled s \<Longrightarrow> feedbackEffect s = s"
  by (simp add: settled_def feedbackEffect_def)

lemma tutorialEffect_settled: "settled s \<Longrightarrow> tutorialEffect s = s"
  by (simp add: settled_def tutorialEffect_eq)

lemma settle_settled: "settled s \<Longrightarrow> settle s = s"
  by (simp add: settle_def physicsEffect_settled animationEffect_settled
      feedbackEffect_settled tutorialEffect_settled)

lemma settle_idem: "settle (settle s) = settle s"
  by (rule settle_settled) (rule settled_settle)

lemma settled_step: "settled (step s e)"
  by (simp add: step_def settled_settle)

lemma settled_mounted: "settled mounted"
  by (simp add: mounted_def settled_settle)

lemma reachable_settled: "reachable s \<Longrightarrow> settled s"
  by (induction rule: reachable.induct) (simp_all add: settled_mounted settled_step)

section \<open>The physics calculations\<close>

lemma stalling_iff: "stalling p \<longleftrightarrow> angleOfAttack p > 15"
  by (simp add: stalling_def criticalAngle_def)

lemma physics_fst: "fst (physics p) = stalling p"
  by (simp add: physics_def Let_def)

lemma physics_lift:
  "lift (snd (physics p)) =
     (if stalling p then dynamicPressure p * wingArea p * liftCoefficient p * 0.3
      else dynamicPressure p * wingArea p * liftCoefficient p)"
  by (simp add: physics_def Let_def)

lemma physics_drag:
  "drag (snd (physics p)) = dynamicPressure p * wingArea p * dragCoefficient p"
  by (simp add: physics_def Let_def)

lemma physics_thrust: "thrust (snd (physics p)) = (throttle p / 100) * 120000"
  by (simp add: physics_def Let_def)

lemma physics_weightForce: "weightForce (snd (physics p)) = weight p * 9.81"
  by (simp add: physics_def Let_def)

lemma dynamicPressure_angleOfAttack [simp]:
  "dynamicPressure (p\<lparr>angleOfAttack := a\<rparr>) = dynamicPressure p"
  by (simp add: dynamicPressure_def airDensity_def velocityMs_def)

text \<open>
  Claim C1. The stall flag that the physics effect computes, and writes to the state, is
  true if and only if \<^verbatim>\<open>angleOfAttack\<close> is greater than 15. When it is true, the lift is 0.3 times the
  product of dynamic pressure, wing area and lift coefficient, which is the lift that the
  effect computes for the same parameters at any angle of attack of at most 15 (where the
  flag is false). With airspeed 250 and altitude 3000, whatever the other parameters,
  the flag is false at angle of attack 5 and true at 20, and the lift at 20 is 0.3 times
  the lift at 5.
\<close>

theorem stall_flag_and_lift:
  "(fst (physics p) \<longleftrightarrow> angleOfAttack p > 15)
   \<and> (isStalling (physicsEffect s) \<longleftrightarrow> angleOfAttack (parameters s) > 15)
   \<and> (fst (physics p) \<longrightarrow>
        lift (snd (physics p)) = 0.3 * (dynamicPressure p * wingArea p * liftCoefficient p))
   \<and> (fst (physics p) \<longrightarrow>
        (\<forall>a. a \<le> 15 \<longrightarrow>
           \<not> fst (physics (p\<lparr>angleOfAttack := a\<rparr>))
           \<and> lift (snd (physics p)) = 0.3 * lift (snd (physics (p\<lparr>angleOfAttack := a\<rparr>)))))
   \<and> \<not> fst (physics (p\<lparr>airspeed := 250, angleOfAttack := 5, altitude := 3000\<rparr>))
   \<and> fst (physics (p\<lparr>airspeed := 250, angleOfAttack := 20, altitude := 3000\<rparr>))
   \<and> lift (snd (physics (p\<lparr>airspeed := 250, angleOfAttack := 20, altitude := 3000\<rparr>)))
       = 0.3 * lift (snd (physics (p\<lparr>airspeed := 250, angleOfAttack := 5, altitude := 3000\<rparr>)))"
proof -
  have flag: "fst (physics q) \<longleftrightarrow> angleOfAttack q > 15" for q
    by (simp add: physics_fst stalling_iff)
  have stalled: "lift (snd (physics q)) = 0.3 * (dynamicPressure q * wingArea q * liftCoefficient q)"
    if "fst (physics q)" for q
    using that by (simp add: physics_fst physics_lift)
  have flying: "lift (snd (physics q)) = dynamicPressure q * wingArea q * liftCoefficient q"
    if "\<not> fst (physics q)" for q
    using that by (simp add: physics_fst physics_lift)
  have other: "\<not> fst (physics (q\<lparr>angleOfAttack := a\<rparr>))
      \<and> lift (snd (physics q)) = 0.3 * lift (snd (physics (q\<lparr>angleOfAttack := a\<rparr>)))"
    if "fst (physics q)" and "a \<le> 15" for q a
  proof -
    have low: "\<not> fst (physics (q\<lparr>angleOfAttack := a\<rparr>))"
      using that(2) by (simp add: flag)
    show ?thesis
      using low stalled [OF that(1)] flying [OF low] by simp
  qed
  let ?q = "p\<lparr>airspeed := 250, angleOfAttack := 20, altitude := 3000\<rparr>"
  have q5: "?q\<lparr>angleOfAttack := 5\<rparr> = p\<lparr>airspeed := 250, angleOfAttack := 5, altitude := 3000\<rparr>"
    by simp
  have hi: "fst (physics ?q)" by (simp add: flag)
  have ex: "\<not> fst (physics (?q\<lparr>angleOfAttack := 5\<rparr>))
      \<and> lift (snd (physics ?q)) = 0.3 * lift (snd (physics (?q\<lparr>angleOfAttack := 5\<rparr>)))"
    by (rule other [OF hi]) simp
  have cell: "isStalling (physicsEffect s) \<longleftrightarrow> angleOfAttack (parameters s) > 15"
    by (simp add: physicsEffect_frame flag)
  show ?thesis
    using flag [of p] cell stalled [of p] other [of p] hi ex unfolding q5 by blast
qed

theorem stall_flag_and_lift_witness:
  "fst (physics (initialParameters\<lparr>angleOfAttack := 20\<rparr>))
   \<and> lift (snd (physics (initialParameters\<lparr>angleOfAttack := 20\<rparr>)))
       = 0.3 * (dynamicPressure initialParameters * 125 * 1.2)
   \<and> \<not> fst (physics initialParameters)
   \<and> lift (snd (physics (initialParameters\<lparr>angleOfAttack := 20\<rparr>)))
       = 0.3 * lift (snd (physics initialParameters))"
proof -
  let ?p = "initialParameters\<lparr>angleOfAttack := 20\<rparr>"
  have a: "angleOfAttack ?p > 15" by simp
  have b: "?p\<lparr>angleOfAttack := 5\<rparr> = initialParameters"
    by (simp add: initialParameters_def)
  have c: "wingArea ?p = 125" "liftCoefficient ?p = 1.2"
    by (simp_all add: initialParameters_def)
  note t = stall_flag_and_lift [of ?p mounted]
  from t a have st: "fst (physics ?p)" by blast
  from t st
  have l: "lift (snd (physics ?p)) = 0.3 * (dynamicPressure ?p * wingArea ?p * liftCoefficient ?p)"
    by blast
  from t st
  have "\<forall>a. a \<le> 15 \<longrightarrow>
           \<not> fst (physics (?p\<lparr>angleOfAttack := a\<rparr>))
           \<and> lift (snd (physics ?p)) = 0.3 * lift (snd (physics (?p\<lparr>angleOfAttack := a\<rparr>)))"
    by blast
  then have "\<not> fst (physics (?p\<lparr>angleOfAttack := 5\<rparr>))
           \<and> lift (snd (physics ?p)) = 0.3 * lift (snd (physics (?p\<lparr>angleOfAttack := 5\<rparr>)))"
    by simp
  then show ?thesis using st l unfolding b c by simp
qed

text \<open>
  Claim C2. For every value of the parameters the physics effect computes the air density
  as 1.225 times the exponential of minus altitude over 8400, the velocity as airspeed
  over 3.6, the dynamic pressure as half the density times the square of the velocity,
  the lift as dynamic pressure times wing area times lift coefficient (times 0.3 when the
  angle of attack exceeds 15), the drag as dynamic pressure times wing area times drag
  coefficient, the thrust as throttle over 100 times 120000 and the weight force as weight
  times 9.81. The thrust is additive and homogeneous in the throttle, is 120000 at
  throttle 100, and lies between 0 and 120000 for a throttle between 0 and 100.
\<close>

theorem physics_formulas:
  "airDensity p = 1.225 * exp (- altitude p / 8400)
   \<and> velocityMs p = airspeed p / 3.6
   \<and> dynamicPressure p = 0.5 * (1.225 * exp (- altitude p / 8400)) * (airspeed p / 3.6)\<^sup>2
   \<and> lift (snd (physics p)) =
       (if angleOfAttack p > 15
        then dynamicPressure p * wingArea p * liftCoefficient p * 0.3
        else dynamicPressure p * wingArea p * liftCoefficient p)
   \<and> drag (snd (physics p)) = dynamicPressure p * wingArea p * dragCoefficient p
   \<and> thrust (snd (physics p)) = (throttle p / 100) * 120000
   \<and> weightForce (snd (physics p)) = weight p * 9.81
   \<and> thrust (snd (physics (p\<lparr>throttle := t + u\<rparr>)))
       = thrust (snd (physics (p\<lparr>throttle := t\<rparr>))) + thrust (snd (physics (p\<lparr>throttle := u\<rparr>)))
   \<and> thrust (snd (physics (p\<lparr>throttle := c * t\<rparr>)))
       = c * thrust (snd (physics (p\<lparr>throttle := t\<rparr>)))
   \<and> thrust (snd (physics (p\<lparr>throttle := 100\<rparr>))) = 120000
   \<and> (0 \<le> throttle p \<and> throttle p \<le> 100 \<longrightarrow>
        0 \<le> thrust (snd (physics p)) \<and> thrust (snd (physics p)) \<le> 120000)"
proof -
  have dp: "dynamicPressure p = 0.5 * (1.225 * exp (- altitude p / 8400)) * (airspeed p / 3.6)\<^sup>2"
    by (simp add: dynamicPressure_def airDensity_def velocityMs_def power2_eq_square)
  have l: "lift (snd (physics p)) =
       (if angleOfAttack p > 15
        then dynamicPressure p * wingArea p * liftCoefficient p * 0.3
        else dynamicPressure p * wingArea p * liftCoefficient p)"
    by (simp add: physics_lift stalling_iff)
  have lin: "thrust (snd (physics (p\<lparr>throttle := t + u\<rparr>)))
       = thrust (snd (physics (p\<lparr>throttle := t\<rparr>))) + thrust (snd (physics (p\<lparr>throttle := u\<rparr>)))"
    by (simp add: physics_thrust)
  have hom: "thrust (snd (physics (p\<lparr>throttle := c * t\<rparr>)))
       = c * thrust (snd (physics (p\<lparr>throttle := t\<rparr>)))"
    by (simp add: physics_thrust)
  have top: "thrust (snd (physics (p\<lparr>throttle := 100\<rparr>))) = 120000"
    by (simp add: physics_thrust)
  have bnd: "0 \<le> thrust (snd (physics p)) \<and> thrust (snd (physics p)) \<le> 120000"
    if "0 \<le> throttle p \<and> throttle p \<le> 100"
    using that by (simp add: physics_thrust)
  show ?thesis
    using dp l lin hom top bnd
    by (simp add: airDensity_def velocityMs_def physics_drag physics_thrust physics_weightForce)
qed

theorem physics_formulas_witness:
  "0 \<le> throttle initialParameters \<and> throttle initialParameters \<le> 100
   \<and> thrust (snd (physics initialParameters)) = 90000
   \<and> weightForce (snd (physics initialParameters)) = 406134
   \<and> 0 \<le> thrust (snd (physics initialParameters))
   \<and> thrust (snd (physics initialParameters)) \<le> 120000
   \<and> lift (snd (physics initialParameters)) =
       dynamicPressure initialParameters * 125 * 1.2"
proof -
  have r: "0 \<le> throttle initialParameters \<and> throttle initialParameters \<le> 100"
    by (simp add: initialParameters_def)
  have v: "throttle initialParameters = 75" "weight initialParameters = 41400"
    "angleOfAttack initialParameters = 5" "wingArea initialParameters = 125"
    "liftCoefficient initialParameters = 1.2"
    by (simp_all add: initialParameters_def)
  show ?thesis
    using r physics_formulas [of initialParameters 0 0 0] unfolding v by simp
qed

text \<open>
  Claim C7. The forces are a function of the parameters alone: the physics effect gives
  equal forces and stall flags in two states with equal parameters, whatever forces the
  states held before; running it a second time changes nothing; after every step of the
  component, from any state and for any event, the forces are those that the physics
  calculations give for the parameters of the new state, so that two steps that end with
  equal parameters end with equal forces; the same holds in every reachable state.
\<close>

theorem forces_pure:
  "(parameters s = parameters t \<longrightarrow>
      forces (physicsEffect s) = forces (physicsEffect t)
      \<and> isStalling (physicsEffect s) = isStalling (physicsEffect t))
   \<and> physicsEffect (physicsEffect s) = physicsEffect s
   \<and> forces (physicsEffect s) = snd (physics (parameters s))
   \<and> forces (step s e) = snd (physics (parameters (step s e)))
   \<and> (parameters (step s e) = parameters (step t e') \<longrightarrow> forces (step s e) = forces (step t e'))
   \<and> (reachable s \<longrightarrow> forces s = snd (physics (parameters s)))"
proof -
  have idem: "physicsEffect (physicsEffect s) = physicsEffect s"
    by (simp add: physicsEffect_def)
  have st: "forces (step u d) = snd (physics (parameters (step u d)))" for u d
    using settled_step [of u d] by (simp add: settled_def)
  have re: "forces s = snd (physics (parameters s))" if "reachable s"
    using reachable_settled [OF that] by (simp add: settled_def)
  show ?thesis
    using idem st [of s e] st [of t e'] re by (simp add: physicsEffect_frame)
qed

theorem forces_pure_witness:
  "parameters (initialState\<lparr>isRunning := True\<rparr>) = parameters mounted
   \<and> forces (physicsEffect (initialState\<lparr>isRunning := True\<rparr>)) = forces (physicsEffect mounted)
   \<and> reachable mounted
   \<and> forces mounted = snd (physics (parameters mounted))
   \<and> forces (step mounted ToggleRunning) = forces (step mounted ToggleHints)"
proof -
  have p: "parameters (initialState\<lparr>isRunning := True\<rparr>) = parameters mounted"
    by (simp add: mounted_def settle_frame)
  have q: "parameters (step mounted ToggleRunning) = parameters (step mounted ToggleHints)"
    by (simp add: step_def settle_frame)
  have r: "reachable mounted" by (rule reachable_mounted)
  note a = forces_pure [where s = "initialState\<lparr>isRunning := True\<rparr>" and t = mounted
      and e = Tick and e' = Tick]
  note b = forces_pure [where s = mounted and t = mounted and e = ToggleRunning
      and e' = ToggleHints]
  from a p have 1: "forces (physicsEffect (initialState\<lparr>isRunning := True\<rparr>))
      = forces (physicsEffect mounted)" by blast
  from b r have 2: "forces mounted = snd (physics (parameters mounted))" by blast
  from b q have 3: "forces (step mounted ToggleRunning) = forces (step mounted ToggleHints)"
    by blast
  from p r 1 2 3 show ?thesis by blast
qed

section \<open>Event handlers: position, velocity and the running flag\<close>

lemma selectAircraft_frame:
  "position (selectAircraft a s) = position s"
  "velocity (selectAircraft a s) = velocity s"
  "isRunning (selectAircraft a s) = isRunning s"
  "intervalActive (selectAircraft a s) = intervalActive s"
  "completedSteps (selectAircraft a s) = completedSteps s"
  "advanceTimers (selectAircraft a s) = advanceTimers s"
  "currentTutorial (selectAircraft a s) = currentTutorial s"
  "tutorialActive (selectAircraft a s) = tutorialActive s"
  by (simp_all add: selectAircraft_def updateParameter_def Let_def split: option.split)

lemma advanceCallback_frame:
  "position (advanceCallback c s) = position s"
  "velocity (advanceCallback c s) = velocity s"
  "isRunning (advanceCallback c s) = isRunning s"
  "intervalActive (advanceCallback c s) = intervalActive s"
  "completedSteps (advanceCallback c s) = completedSteps s"
  "parameters (advanceCallback c s) = parameters s"
  "tutorialActive (advanceCallback c s) = tutorialActive s"
  by (simp_all add: advanceCallback_def)

lemma handle_motion:
  "e \<noteq> Tick \<or> \<not> intervalActive s \<Longrightarrow>
     (position (handle e s) = position s \<and> velocity (handle e s) = velocity s)
     \<or> (position (handle e s) = resetPosition \<and> velocity (handle e s) = resetVelocity)"
  by (cases e)
    (simp_all add: resetSimulation_def updateParameter_def startTutorial_def
      selectAircraft_frame advanceCallback_frame resetPosition_def resetVelocity_def
      split: list.split)

lemma handle_Tick: "handle Tick s = (if intervalActive s then integrate s else s)"
  by simp

lemma step_motion:
  "position (step s e) = position (handle e s)"
  "velocity (step s e) = velocity (handle e s)"
  "isRunning (step s e) = isRunning (handle e s)"
  "intervalActive (step s e) = isRunning (handle e s)"
  by (simp_all add: step_def settle_frame)

lemma integrate_position:
  "50 \<le> pos_x (position (integrate s))" "pos_x (position (integrate s)) \<le> 750"
  "50 \<le> pos_y (position (integrate s))" "pos_y (position (integrate s)) \<le> 550"
  by (simp_all add: integrate_def Let_def)

lemma inCanvas_handle: "inCanvas (position s) \<Longrightarrow> inCanvas (position (handle e s))"
proof (cases "e = Tick \<and> intervalActive s")
  case True
  then show ?thesis by (simp add: inCanvas_def integrate_position)
next
  case False
  assume "inCanvas (position s)"
  with handle_motion [of e s] False show ?thesis
    by (auto simp: inCanvas_def resetPosition_def)
qed

lemma inCanvas_reachable: "reachable s \<Longrightarrow> inCanvas (position s)"
proof (induction rule: reachable.induct)
  case reachable_mounted
  show ?case by (simp add: mounted_def settle_frame initialState_def inCanvas_def)
next
  case (reachable_step s e)
  then show ?case by (simp add: step_motion inCanvas_handle)
qed

text \<open>
  Claim C10. The position that an animation step computes has its x between 50 and 750
  and its y between 50 and 550, whatever the forces, the velocity and the parameters; so
  has the position after a tick of the interval, and the position of every reachable
  state.
\<close>

theorem position_clamped:
  "50 \<le> pos_x (position (integrate s)) \<and> pos_x (position (integrate s)) \<le> 750
   \<and> 50 \<le> pos_y (position (integrate s)) \<and> pos_y (position (integrate s)) \<le> 550
   \<and> (intervalActive s \<longrightarrow>
        50 \<le> pos_x (position (step s Tick)) \<and> pos_x (position (step s Tick)) \<le> 750
        \<and> 50 \<le> pos_y (position (step s Tick)) \<and> pos_y (position (step s Tick)) \<le> 550)
   \<and> (reachable s \<longrightarrow>
        50 \<le> pos_x (position s) \<and> pos_x (position s) \<le> 750
        \<and> 50 \<le> pos_y (position s) \<and> pos_y (position s) \<le> 550)"
proof -
  have tick: "position (step s Tick) = position (integrate s)" if "intervalActive s"
    using that by (simp add: step_motion)
  have inv: "inCanvas (position s)" if "reachable s"
    using that by (rule inCanvas_reachable)
  show ?thesis
    using tick inv by (auto simp: integrate_position inCanvas_def)
qed


theorem position_clamped_witness:
  "intervalActive (step mounted ToggleRunning)
   \<and> reachable (step (step mounted ToggleRunning) Tick)
   \<and> 50 \<le> pos_x (position (step (step mounted ToggleRunning) Tick))
   \<and> pos_x (position (step (step mounted ToggleRunning) Tick)) \<le> 750
   \<and> 50 \<le> pos_y (position (step (step mounted ToggleRunning) Tick))
   \<and> pos_y (position (step (step mounted ToggleRunning) Tick)) \<le> 550"
proof -
  have i: "intervalActive (step mounted ToggleRunning)"
    by (simp add: step_motion mounted_def settle_frame initialState_def)
  have r: "reachable (step (step mounted ToggleRunning) Tick)"
    by (intro reachable_step reachable_mounted) simp_all
  from position_clamped [of "step mounted ToggleRunning"] i
  have "50 \<le> pos_x (position (step (step mounted ToggleRunning) Tick))
      \<and> pos_x (position (step (step mounted ToggleRunning) Tick)) \<le> 750
      \<and> 50 \<le> pos_y (position (step (step mounted ToggleRunning) Tick))
      \<and> pos_y (position (step (step mounted ToggleRunning) Tick)) \<le> 550"
    by blast
  moreover from position_clamped [of "step (step mounted ToggleRunning) Tick"] r
  have "50 \<le> pos_x (position (step (step mounted ToggleRunning) Tick))"
    by blast
  ultimately show ?thesis using i r by blast
qed

section \<open>The animation loop and the reset\<close>

lemma tutorialFires_cong:
  "tutorialActive t = tutorialActive s \<Longrightarrow> currentTutorial t = currentTutorial s \<Longrightarrow>
   parameters t = parameters s \<Longrightarrow> completedSteps t = completedSteps s \<Longrightarrow>
   tutorialFires t = tutorialFires s"
  by (simp add: tutorialFires_def)

lemma step_idle: "settled s \<Longrightarrow> \<not> intervalActive s \<Longrightarrow> step s Tick = s"
  by (simp add: step_def settle_settled)

lemma reachable_interval: "reachable s \<Longrightarrow> intervalActive s = isRunning s"
  using reachable_settled [of s] by (simp add: settled_def)

text \<open>
  Claim C8. In every reachable state the interval of the animation effect is set exactly
  when the running flag is. In a reachable state whose running flag is false a tick does
  nothing, and no event integrates: every step leaves position and velocity as they are
  or sets them to the values of the reset. In a reachable state whose running flag is
  true a tick is one integration step. Once a step has cleared the running flag, the
  next tick changes nothing.
\<close>

theorem integration_only_while_running:
  "(reachable s \<longrightarrow> intervalActive s = isRunning s)
   \<and> (reachable s \<and> \<not> isRunning s \<longrightarrow>
        handle Tick s = s \<and> step s Tick = s
        \<and> (\<forall>e. (position (step s e) = position s \<and> velocity (step s e) = velocity s)
               \<or> (position (step s e) = resetPosition \<and> velocity (step s e) = resetVelocity)))
   \<and> (reachable s \<and> isRunning s \<longrightarrow> step s Tick = settle (integrate s))
   \<and> (\<not> isRunning (step s e) \<longrightarrow> step (step s e) Tick = step s e)"
proof -
  have off: "handle Tick s = s \<and> step s Tick = s
        \<and> (\<forall>e. (position (step s e) = position s \<and> velocity (step s e) = velocity s)
               \<or> (position (step s e) = resetPosition \<and> velocity (step s e) = resetVelocity))"
    if r: "reachable s" and n: "\<not> isRunning s"
  proof -
    from r n have i: "\<not> intervalActive s" by (simp add: reachable_interval)
    have "step s Tick = s"
      using reachable_settled [OF r] i by (rule step_idle)
    moreover have "(position (step s e) = position s \<and> velocity (step s e) = velocity s)
        \<or> (position (step s e) = resetPosition \<and> velocity (step s e) = resetVelocity)" for e
      using handle_motion [of e s] i by (simp add: step_motion)
    ultimately show ?thesis using i by simp
  qed
  have on: "step s Tick = settle (integrate s)" if "reachable s" and "isRunning s"
    using that by (simp add: step_def reachable_interval)
  have stop: "step (step s e) Tick = step s e" if "\<not> isRunning (step s e)"
  proof (rule step_idle)
    show "settled (step s e)" by (rule settled_step)
    show "\<not> intervalActive (step s e)" using that by (simp add: step_motion)
  qed
  show ?thesis
    using off on stop by (auto simp: reachable_interval)
qed

theorem integration_only_while_running_witness:
  "reachable mounted \<and> \<not> isRunning mounted
   \<and> handle Tick mounted = mounted \<and> step mounted Tick = mounted
   \<and> reachable (step mounted ToggleRunning) \<and> isRunning (step mounted ToggleRunning)
   \<and> step (step mounted ToggleRunning) Tick = settle (integrate (step mounted ToggleRunning))
   \<and> \<not> isRunning (step (step mounted ToggleRunning) ToggleRunning)
   \<and> step (step (step mounted ToggleRunning) ToggleRunning) Tick
       = step (step mounted ToggleRunning) ToggleRunning"
proof -
  have r0: "reachable mounted" by (rule reachable_mounted)
  have n0: "\<not> isRunning mounted"
    by (simp add: mounted_def settle_frame initialState_def)
  have r1: "reachable (step mounted ToggleRunning)"
    by (intro reachable_step reachable_mounted) simp
  have n1: "isRunning (step mounted ToggleRunning)"
    using n0 by (simp add: step_motion)
  have n2: "\<not> isRunning (step (step mounted ToggleRunning) ToggleRunning)"
    using n1 by (simp add: step_motion)
  from integration_only_while_running [of mounted] r0 n0
  have a: "handle Tick mounted = mounted \<and> step mounted Tick = mounted" by blast
  from integration_only_while_running [of "step mounted ToggleRunning" ToggleRunning] r1 n1 n2
  have b: "step (step mounted ToggleRunning) Tick = settle (integrate (step mounted ToggleRunning))
    \<and> step (step (step mounted ToggleRunning) ToggleRunning) Tick
       = step (step mounted ToggleRunning) ToggleRunning"
    by blast
  from r0 n0 r1 n1 n2 a b show ?thesis by blast
qed

text \<open>
  Claim C9. \<^verbatim>\<open>resetSimulation\<close> sets the running flag to false, the position to
  (400, 300, 0) and the velocity to (0, 0, 0), and leaves the parameters, the forces, the
  stall flag, the tutorial state, the selected aircraft and every other cell of the state
  as they are. The effects that follow it in a state at rest change nothing more, except
  that the interval of the animation effect is cleared.
\<close>

theorem resetSimulation_frame:
  "isRunning (resetSimulation s) = False
   \<and> position (resetSimulation s) = \<lparr>pos_x = 400, pos_y = 300, rotation = 0\<rparr>
   \<and> velocity (resetSimulation s) = \<lparr>vel_x = 0, vel_y = 0, angular = 0\<rparr>
   \<and> parameters (resetSimulation s) = parameters s
   \<and> forces (resetSimulation s) = forces s
   \<and> isStalling (resetSimulation s) = isStalling s
   \<and> tutorialActive (resetSimulation s) = tutorialActive s
   \<and> currentTutorial (resetSimulation s) = currentTutorial s
   \<and> completedSteps (resetSimulation s) = completedSteps s
   \<and> selectedAircraft (resetSimulation s) = selectedAircraft s
   \<and> selectedModel (resetSimulation s) = selectedModel s
   \<and> showHints (resetSimulation s) = showHints s
   \<and> parameterFeedback (resetSimulation s) = parameterFeedback s
   \<and> currentTips (resetSimulation s) = currentTips s
   \<and> showAdvancedMetrics (resetSimulation s) = showAdvancedMetrics s
   \<and> voiceEnabled (resetSimulation s) = voiceEnabled s
   \<and> advanceTimers (resetSimulation s) = advanceTimers s
   \<and> (settled s \<longrightarrow>
        step s ResetSimulation =
          s\<lparr>isRunning := False, intervalActive := False,
            position := \<lparr>pos_x = 400, pos_y = 300, rotation = 0\<rparr>,
            velocity := \<lparr>vel_x = 0, vel_y = 0, angular = 0\<rparr>\<rparr>)"
proof -
  let ?t = "s\<lparr>isRunning := False, intervalActive := False,
            position := \<lparr>pos_x = 400, pos_y = 300, rotation = 0\<rparr>,
            velocity := \<lparr>vel_x = 0, vel_y = 0, angular = 0\<rparr>\<rparr>"
  have full: "step s ResetSimulation = ?t" if "settled s"
  proof -
    have f: "tutorialFires ?t = tutorialFires s"
      by (rule tutorialFires_cong) simp_all
    have st: "settled ?t"
      using that unfolding settled_def f by simp
    have "physicsEffect (resetSimulation s) = resetSimulation s"
      using that by (simp add: settled_def physicsEffect_def resetSimulation_def)
    moreover have "animationEffect (resetSimulation s) = ?t"
      by (simp add: animationEffect_def resetSimulation_def)
    ultimately have "settle (resetSimulation s) = tutorialEffect (feedbackEffect ?t)"
      by (simp add: settle_def)
    then show ?thesis
      by (simp add: step_def feedbackEffect_settled [OF st] tutorialEffect_settled [OF st])
  qed
  show ?thesis
    using full by (simp add: resetSimulation_def)
qed

theorem resetSimulation_frame_witness:
  "settled (step mounted ToggleRunning)
   \<and> step (step mounted ToggleRunning) ResetSimulation =
       (step mounted ToggleRunning)
         \<lparr>isRunning := False, intervalActive := False,
          position := \<lparr>pos_x = 400, pos_y = 300, rotation = 0\<rparr>,
          velocity := \<lparr>vel_x = 0, vel_y = 0, angular = 0\<rparr>\<rparr>"
proof -
  have s: "settled (step mounted ToggleRunning)" by (rule settled_step)
  from resetSimulation_frame [of "step mounted ToggleRunning"] s show ?thesis by blast
qed

section \<open>The feedback classifier\<close>

lemma all_Check:
  "(\<forall>c. P c) \<longleftrightarrow>
     P LowSpeed \<and> P HighSpeed \<and> P NearStall \<and> P Stall \<and> P NegativeAngle
     \<and> P HighAltitude \<and> P BalancedForces"
proof
  assume r: "P LowSpeed \<and> P HighSpeed \<and> P NearStall \<and> P Stall \<and> P NegativeAngle
     \<and> P HighAltitude \<and> P BalancedForces"
  show "\<forall>c. P c"
  proof
    fix c show "P c" using r by (cases c) simp_all
  qed
qed simp

lemma classify_fst:
  "fst (classify p f) =
     (if matches BalancedForces p f then checkText BalancedForces
      else if matches HighAltitude p f then checkText HighAltitude
      else if matches NearStall p f then checkText NearStall
      else if matches Stall p f then checkText Stall
      else if matches NegativeAngle p f then checkText NegativeAngle
      else if matches LowSpeed p f then checkText LowSpeed
      else if matches HighSpeed p f then checkText HighSpeed
      else [])"
  by (simp add: classify_def balanceCheck_def altitudeCheck_def angleCheck_def
      speedCheck_def Let_def)

lemma checkText_inject: "checkText c = checkText d \<longleftrightarrow> c = d"
  by (cases c; cases d)
    (simp_all add: lowSpeedText_def highSpeedText_def nearStallText_def stallText_def
      negativeAngleText_def highAltitudeText_def balancedText_def warningSign_def
      highVoltageSign_def policeLightSign_def chartDownSign_def mountainSign_def
      checkMarkSign_def)

lemma checkText_nonempty: "checkText c \<noteq> []" "[] \<noteq> checkText c"
  by (cases c;
    simp add: lowSpeedText_def highSpeedText_def nearStallText_def stallText_def
      negativeAngleText_def highAltitudeText_def balancedText_def warningSign_def
      highVoltageSign_def policeLightSign_def chartDownSign_def mountainSign_def
      checkMarkSign_def)+

lemma same_group_exclusive:
  "matches c p f \<Longrightarrow> matches d p f \<Longrightarrow> c \<noteq> d \<Longrightarrow> checkGroup c \<noteq> checkGroup d"
  by (cases c; cases d) simp_all

lemma last_match_wins:
  assumes "matches c p f" and "\<forall>d. matches d p f \<longrightarrow> checkOrder d \<le> checkOrder c"
  shows "fst (classify p f) = checkText c"
  using assms unfolding all_Check
  by (cases c) (auto simp: classify_fst checkText_inject simp del: checkText.simps)

lemma no_match_empty: "\<forall>c. \<not> matches c p f \<Longrightarrow> fst (classify p f) = []"
  unfolding all_Check by (auto simp: classify_fst simp del: checkText.simps)

lemma earlier_overwritten:
  "matches c p f \<Longrightarrow> matches d p f \<Longrightarrow> checkOrder c < checkOrder d \<Longrightarrow>
   fst (classify p f) \<noteq> checkText c"
  by (cases c; cases d)
    (auto simp: classify_fst checkText_inject checkText_nonempty simp del: checkText.simps)

text \<open>
  Claim C6. The feedback effect runs its checks in the order low speed, high speed,
  near-stall, stall, negative angle, high altitude, balanced forces, and the text it
  produces is that of the last check in this order that matches: the text of a check is
  never the result when a later check matches too, two different checks that both match
  are of different conditional statements, and without a match the text is empty. When
  the stall check and the high-altitude check match (and the balanced-forces check does
  not) the text is the one of high altitude; when the balanced-forces check matches, the
  text is the one of balanced forces, whatever else matches.
\<close>

theorem feedback_last_check_wins:
  "(matches c p f \<and> (\<forall>d. matches d p f \<longrightarrow> checkOrder d \<le> checkOrder c) \<longrightarrow>
      fst (classify p f) = checkText c)
   \<and> (matches c p f \<and> matches d p f \<and> checkOrder c < checkOrder d \<longrightarrow>
      fst (classify p f) \<noteq> checkText c)
   \<and> (matches c p f \<and> matches d p f \<and> c \<noteq> d \<longrightarrow> checkGroup c \<noteq> checkGroup d)
   \<and> ((\<forall>c. \<not> matches c p f) \<longrightarrow> fst (classify p f) = [])
   \<and> (angleOfAttack p > 15 \<and> altitude p > 8000
        \<and> \<not> (\<bar>thrust f - drag f\<bar> < 5000 \<and> \<bar>lift f - weightForce f\<bar> < 10000) \<longrightarrow>
      fst (classify p f) = highAltitudeText)
   \<and> (\<bar>thrust f - drag f\<bar> < 5000 \<and> \<bar>lift f - weightForce f\<bar> < 10000 \<longrightarrow>
      fst (classify p f) = balancedText)
   \<and> parameterFeedback (feedbackEffect s) = fst (classify (parameters s) (forces s))
   \<and> (settled s \<longrightarrow> parameterFeedback s = fst (classify (parameters s) (forces s)))"
proof -
  have alt: "fst (classify p f) = highAltitudeText"
    if "angleOfAttack p > 15 \<and> altitude p > 8000
        \<and> \<not> (\<bar>thrust f - drag f\<bar> < 5000 \<and> \<bar>lift f - weightForce f\<bar> < 10000)"
    using that by (auto simp: classify_fst)
  have bal: "fst (classify p f) = balancedText"
    if "\<bar>thrust f - drag f\<bar> < 5000 \<and> \<bar>lift f - weightForce f\<bar> < 10000"
    using that by (simp add: classify_fst)
  have set: "parameterFeedback s = fst (classify (parameters s) (forces s))" if "settled s"
    using that by (simp add: settled_def)
  show ?thesis
    using last_match_wins [of c p f] earlier_overwritten [of c p f d]
      same_group_exclusive [of c p f d] no_match_empty [of p f] alt bal set
    by (simp add: feedbackEffect_frame)
qed

theorem feedback_last_check_wins_witness:
  "fst (classify (initialParameters\<lparr>angleOfAttack := 20, altitude := 9000\<rparr>)
         \<lparr>lift = 0, drag = 0, thrust = 90000, weightForce = 406134\<rparr>) = highAltitudeText
   \<and> fst (classify (initialParameters\<lparr>angleOfAttack := 20, altitude := 9000\<rparr>)
         \<lparr>lift = 0, drag = 0, thrust = 90000, weightForce = 406134\<rparr>) \<noteq> stallText
   \<and> fst (classify (initialParameters\<lparr>angleOfAttack := 20, altitude := 9000\<rparr>)
         \<lparr>lift = 400000, drag = 88000, thrust = 90000, weightForce = 406134\<rparr>) = balancedText
   \<and> fst (classify initialParameters
         \<lparr>lift = 0, drag = 0, thrust = 90000, weightForce = 406134\<rparr>) = []
   \<and> settled mounted
   \<and> parameterFeedback mounted = fst (classify (parameters mounted) (forces mounted))"
proof -
  let ?p = "initialParameters\<lparr>angleOfAttack := 20, altitude := 9000\<rparr>"
  let ?f = "\<lparr>lift = 0, drag = 0, thrust = 90000, weightForce = 406134\<rparr>"
  let ?g = "\<lparr>lift = 400000, drag = 88000, thrust = 90000, weightForce = 406134\<rparr>"
  have m1: "matches HighAltitude ?p ?f" by simp
  have m2: "matches Stall ?p ?f" by simp
  have top: "\<forall>d. matches d ?p ?f \<longrightarrow> checkOrder d \<le> checkOrder HighAltitude"
    unfolding all_Check by (simp add: initialParameters_def)
  have ord: "checkOrder Stall < checkOrder HighAltitude" by simp
  have ex: "angleOfAttack ?p > 15 \<and> altitude ?p > 8000
        \<and> \<not> (\<bar>thrust ?f - drag ?f\<bar> < 5000 \<and> \<bar>lift ?f - weightForce ?f\<bar> < 10000)"
    by simp
  have bal: "\<bar>thrust ?g - drag ?g\<bar> < 5000 \<and> \<bar>lift ?g - weightForce ?g\<bar> < 10000"
    by simp
  have none: "\<forall>c. \<not> matches c initialParameters ?f"
    unfolding all_Check by (simp add: initialParameters_def)
  have sm: "settled mounted" by (rule settled_mounted)
  from feedback_last_check_wins [of HighAltitude ?p ?f Stall mounted] m1 top
  have 1: "fst (classify ?p ?f) = checkText HighAltitude" by blast
  from feedback_last_check_wins [of Stall ?p ?f HighAltitude mounted] m1 m2 ord
  have 2: "fst (classify ?p ?f) \<noteq> checkText Stall" by blast
  from feedback_last_check_wins [of Stall ?p ?g HighAltitude mounted] bal
  have 3: "fst (classify ?p ?g) = balancedText" by blast
  from feedback_last_check_wins [of Stall initialParameters ?f HighAltitude mounted] none
  have 4: "fst (classify initialParameters ?f) = []" by blast
  from feedback_last_check_wins [of Stall ?p ?f HighAltitude mounted] sm
  have 5: "parameterFeedback mounted = fst (classify (parameters mounted) (forces mounted))"
    by blast
  from feedback_last_check_wins [of Stall ?p ?f HighAltitude mounted] ex
  have 6: "fst (classify ?p ?f) = highAltitudeText" by blast
  from feedback_last_check_wins [of Stall ?p ?f HighAltitude mounted] m1 m2
  have 7: "checkGroup Stall \<noteq> checkGroup HighAltitude" by blast
  from 1 2 3 4 5 6 7 sm show ?thesis by simp
qed

section \<open>Completed steps\<close>

lemma tutorialFires_settle_arg:
  "tutorialFires (feedbackEffect (animationEffect (physicsEffect s))) = tutorialFires s"
  by (rule tutorialFires_cong) (simp_all add: effect_frame)

lemma settle_completedSteps:
  "completedSteps (settle s) =
     (if tutorialFires s then completedSteps s @ [stepId (tutorialSteps ! currentTutorial s)]
      else completedSteps s)"
  by (simp add: settle_def tutorialEffect_eq tutorialFires_settle_arg effect_frame)

lemma settle_advanceTimers:
  "advanceTimers (settle s) =
     (if tutorialFires s then advanceTimers s @ [currentTutorial s] else advanceTimers s)"
  by (simp add: settle_def tutorialEffect_eq tutorialFires_settle_arg effect_frame)

lemma handle_completedSteps:
  "e \<noteq> StartTutorial \<Longrightarrow> completedSteps (handle e s) = completedSteps s"
  by (cases e)
    (simp_all add: resetSimulation_def updateParameter_def selectAircraft_frame
      advanceCallback_frame integrate_def Let_def split: list.split)

lemma startTutorial_fields:
  "completedSteps (startTutorial s) = []"
  "tutorialActive (startTutorial s) = True"
  "currentTutorial (startTutorial s) = 0"
  "parameters (startTutorial s) = parameters s"
  "advanceTimers (startTutorial s) = advanceTimers s"
  by (simp_all add: startTutorial_def resetSimulation_def)

lemma updateParameter_fields:
  "completedSteps (updateParameter k v s) = completedSteps s"
  "tutorialActive (updateParameter k v s) = tutorialActive s"
  "currentTutorial (updateParameter k v s) = currentTutorial s"
  "parameters (updateParameter k v s) = setParam (parameters s) k v"
  "advanceTimers (updateParameter k v s) = advanceTimers s"
  by (simp_all add: updateParameter_def)

lemma step_fields:
  "parameters (step s e) = parameters (handle e s)"
  "currentTutorial (step s e) = currentTutorial (handle e s)"
  "tutorialActive (step s e) = tutorialActive (handle e s)"
  "completedSteps (step s e) =
     (if tutorialFires (handle e s)
      then completedSteps (handle e s)
             @ [stepId (tutorialSteps ! currentTutorial (handle e s))]
      else completedSteps (handle e s))"
  "advanceTimers (step s e) =
     (if tutorialFires (handle e s)
      then advanceTimers (handle e s) @ [currentTutorial (handle e s)]
      else advanceTimers (handle e s))"
  by (simp_all add: step_def settle_frame settle_completedSteps settle_advanceTimers)

lemma mounted_fields:
  "parameters mounted = initialParameters"
  "currentTutorial mounted = 0"
  "tutorialActive mounted = False"
  "completedSteps mounted = []"
  "advanceTimers mounted = []"
  by (simp_all add: mounted_def settle_frame settle_completedSteps settle_advanceTimers
      tutorialFires_def initialState_def)

lemma tutorialSteps_first:
  "tutorialSteps ! 0 = \<lparr>stepId = 1, title = ''Understanding Airspeed'', target = Airspeed,
      minValue = Some 250, maxValue = None, isInformational = None\<rparr>"
  "length tutorialSteps = 5"
  by (simp_all add: tutorialSteps_def)

text \<open>
  Claim C3, as stated: no operation ever removes an id from \<^verbatim>\<open>completedSteps\<close>. It
  fails: after the tutorial is started (the airspeed of 250 completes step 1 at once) and
  the airspeed slider is moved to 100, starting the tutorial again clears the list, and
  id 1 is gone.
\<close>

theorem completedSteps_counterexample:
  "reachable (run mounted [StartTutorial, SliderChange Airspeed 100])
   \<and> wellFormed StartTutorial
   \<and> 1 \<in> set (completedSteps (run mounted [StartTutorial, SliderChange Airspeed 100]))
   \<and> 1 \<notin> set (completedSteps
        (step (run mounted [StartTutorial, SliderChange Airspeed 100]) StartTutorial))"
proof -
  let ?a = "step mounted StartTutorial"
  let ?b = "step ?a (SliderChange Airspeed 100)"
  have run: "run mounted [StartTutorial, SliderChange Airspeed 100] = ?b"
    by (simp add: run_def)
  have r: "reachable ?b"
    by (intro reachable_step reachable_mounted) (simp_all add: sliderEmits_def)
  have fa: "tutorialFires (handle StartTutorial mounted)"
    by (simp add: tutorialFires_def startTutorial_fields mounted_fields tutorialSteps_first
        stepCompleted_def truthy_def initialParameters_def)
  have ca: "completedSteps ?a = [1]"
    using fa by (simp add: step_fields startTutorial_fields tutorialSteps_first)
  have fb: "\<not> tutorialFires (handle (SliderChange Airspeed 100) ?a)"
    by (simp add: tutorialFires_def updateParameter_fields step_fields startTutorial_fields
        tutorialSteps_first stepCompleted_def truthy_def)
  have cb: "completedSteps ?b = [1]"
    using fb ca by (simp add: step_fields [of ?a] updateParameter_fields)
  have fc: "\<not> tutorialFires (handle StartTutorial ?b)"
    by (simp add: tutorialFires_def updateParameter_fields step_fields startTutorial_fields
        tutorialSteps_first stepCompleted_def truthy_def)
  have cc: "completedSteps (step ?b StartTutorial) = []"
    using fc by (simp add: step_fields [of ?b] startTutorial_fields)
  show ?thesis unfolding run using r cb cc by simp
qed

text \<open>
  Claim C3, amended. Under every operation other than \<^verbatim>\<open>startTutorial\<close> the list of
  completed step ids keeps what it holds: a step of the component leaves it as it is or
  appends one id that it did not hold. \<^verbatim>\<open>startTutorial\<close> clears it. The check of the
  tutorial effect itself never removes an id.
\<close>

theorem completedSteps_grow_except_startTutorial:
  "(e \<noteq> StartTutorial \<longrightarrow>
      (completedSteps (step s e) = completedSteps s
       \<or> (\<exists>i. i \<notin> set (completedSteps s) \<and> completedSteps (step s e) = completedSteps s @ [i]))
      \<and> set (completedSteps s) \<subseteq> set (completedSteps (step s e)))
   \<and> completedSteps (handle StartTutorial s) = []
   \<and> set (completedSteps s) \<subseteq> set (completedSteps (tutorialEffect s))"
proof -
  have grow: "completedSteps (step s e) = completedSteps s
       \<or> (\<exists>i. i \<notin> set (completedSteps s) \<and> completedSteps (step s e) = completedSteps s @ [i])"
    if "e \<noteq> StartTutorial"
  proof (cases "tutorialFires (handle e s)")
    case True
    then have "stepId (tutorialSteps ! currentTutorial (handle e s)) \<notin> set (completedSteps s)"
      using that by (simp add: tutorialFires_def handle_completedSteps)
    then show ?thesis using True that by (simp add: step_fields handle_completedSteps)
  next
    case False
    then show ?thesis using that by (simp add: step_fields handle_completedSteps)
  qed
  have sub: "set (completedSteps s) \<subseteq> set (completedSteps (step s e))" if "e \<noteq> StartTutorial"
    using grow [OF that] by auto
  show ?thesis
    using grow sub by (auto simp: startTutorial_fields tutorialEffect_eq)
qed

theorem completedSteps_grow_except_startTutorial_witness:
  "SliderChange Airspeed 100 \<noteq> StartTutorial
   \<and> set (completedSteps (step mounted StartTutorial))
      \<subseteq> set (completedSteps (step (step mounted StartTutorial) (SliderChange Airspeed 100)))"
proof -
  have "SliderChange Airspeed 100 \<noteq> StartTutorial" by simp
  with completedSteps_grow_except_startTutorial
    [of "SliderChange Airspeed 100" "step mounted StartTutorial"]
  show ?thesis by blast
qed

section \<open>The range of the airspeed\<close>

lemma selectAircraft_airspeed:
  "airspeed (parameters (selectAircraft a s)) =
     (if a = ''hot-air-balloon'' then 30 else airspeed (parameters s))"
  by (simp add: selectAircraft_def updateParameter_def Let_def aircraftPresets_def
      split: option.split)

lemma advanceCallback_parameters: "parameters (advanceCallback c s) = parameters s"
  by (simp add: advanceCallback_def)

lemma handle_airspeed:
  "airspeed (parameters (handle e s)) =
     (case e of
        SliderChange key v \<Rightarrow> (if key = Airspeed then v else airspeed (parameters s))
      | SelectAircraft a \<Rightarrow> (if a = ''hot-air-balloon'' then 30 else airspeed (parameters s))
      | _ \<Rightarrow> airspeed (parameters s))"
proof (cases e)
  case (SliderChange key v)
  then show ?thesis by (cases key) (simp_all add: updateParameter_def)
next
  case (SelectAircraft a)
  then show ?thesis by (simp add: selectAircraft_airspeed)
next
  case AdvanceTimeout
  then show ?thesis by (simp add: advanceCallback_parameters split: list.split)
qed (simp_all add: resetSimulation_def startTutorial_def integrate_def Let_def)

text \<open>
  Claim C4, as stated: every operation that updates the parameters leaves the airspeed
  within 50 and 500. It fails: choosing the hot-air balloon in the initial state sets the
  airspeed to 30.
\<close>

theorem airspeed_range_counterexample:
  "reachable mounted
   \<and> wellFormed (SelectAircraft ''hot-air-balloon'')
   \<and> 50 \<le> airspeed (parameters mounted) \<and> airspeed (parameters mounted) \<le> 500
   \<and> airspeed (parameters (step mounted (SelectAircraft ''hot-air-balloon''))) = 30
   \<and> \<not> 50 \<le> airspeed (parameters (step mounted (SelectAircraft ''hot-air-balloon'')))"
proof -
  have "wellFormed (SelectAircraft ''hot-air-balloon'')"
    by (simp add: aircraftPresets_def)
  moreover have "airspeed (parameters mounted) = 250"
    by (simp add: mounted_fields initialParameters_def)
  moreover have
    "airspeed (parameters (step mounted (SelectAircraft ''hot-air-balloon''))) = 30"
    by (simp add: step_fields selectAircraft_airspeed)
  ultimately show ?thesis by (simp add: reachable_mounted)
qed

text \<open>
  Claim C4, amended. Every event of the user interface other than the choice of the
  hot-air balloon leaves an airspeed that is within 50 and 500 within 50 and 500; a change
  of the airspeed slider sets it to the value of the slider, which is within 50 and 500.
  The choice of the hot-air balloon sets the airspeed to 30. In every reachable state the
  airspeed is 30 or within 50 and 500.
\<close>

theorem airspeed_range_except_balloon:
  "(wellFormed e \<and> e \<noteq> SelectAircraft ''hot-air-balloon''
      \<and> 50 \<le> airspeed (parameters s) \<and> airspeed (parameters s) \<le> 500 \<longrightarrow>
      50 \<le> airspeed (parameters (step s e)) \<and> airspeed (parameters (step s e)) \<le> 500)
   \<and> (wellFormed (SliderChange Airspeed v) \<longrightarrow>
      airspeed (parameters (step s (SliderChange Airspeed v))) = v \<and> 50 \<le> v \<and> v \<le> 500)
   \<and> airspeed (parameters (step s (SelectAircraft ''hot-air-balloon''))) = 30
   \<and> (reachable s \<longrightarrow>
      airspeed (parameters s) = 30
      \<or> 50 \<le> airspeed (parameters s) \<and> airspeed (parameters s) \<le> 500)"
proof -
  have keep: "50 \<le> airspeed (parameters (step s e)) \<and> airspeed (parameters (step s e)) \<le> 500"
    if "wellFormed e" and "e \<noteq> SelectAircraft ''hot-air-balloon''"
      and "50 \<le> airspeed (parameters s) \<and> airspeed (parameters s) \<le> 500" for s e
    using that
    by (cases e)
      (auto simp: step_fields handle_airspeed sliderEmits_def simp del: handle.simps)
  have slider: "airspeed (parameters (step s (SliderChange Airspeed v))) = v \<and> 50 \<le> v \<and> v \<le> 500"
    if "wellFormed (SliderChange Airspeed v)"
    using that by (simp add: step_fields updateParameter_def sliderEmits_def)
  have balloon: "airspeed (parameters (step s (SelectAircraft ''hot-air-balloon''))) = 30" for s
    by (simp add: step_fields selectAircraft_airspeed)
  have inv: "airspeed (parameters s) = 30
      \<or> 50 \<le> airspeed (parameters s) \<and> airspeed (parameters s) \<le> 500" if "reachable s"
    using that
  proof (induction rule: reachable.induct)
    case reachable_mounted
    show ?case by (simp add: mounted_fields initialParameters_def)
  next
    case (reachable_step s e)
    then show ?case
      by (cases e)
        (auto simp: step_fields handle_airspeed sliderEmits_def simp del: handle.simps)
  qed
  show ?thesis using keep [of e s] slider balloon inv by blast
qed

theorem airspeed_range_except_balloon_witness:
  "wellFormed (SliderChange Airspeed 300) \<and> SliderChange Airspeed 300 \<noteq> SelectAircraft ''hot-air-balloon''
   \<and> 50 \<le> airspeed (parameters mounted) \<and> airspeed (parameters mounted) \<le> 500
   \<and> airspeed (parameters (step mounted (SliderChange Airspeed 300))) = 300
   \<and> 50 \<le> airspeed (parameters (step mounted (SliderChange Airspeed 300)))
   \<and> airspeed (parameters (step mounted (SliderChange Airspeed 300))) \<le> 500
   \<and> reachable (step mounted (SelectAircraft ''hot-air-balloon''))
   \<and> airspeed (parameters (step mounted (SelectAircraft ''hot-air-balloon''))) = 30"
proof -
  have w: "wellFormed (SliderChange Airspeed 300)" by (simp add: sliderEmits_def)
  have n: "SliderChange Airspeed 300 \<noteq> SelectAircraft ''hot-air-balloon''" by simp
  have a: "50 \<le> airspeed (parameters mounted) \<and> airspeed (parameters mounted) \<le> 500"
    by (simp add: mounted_fields initialParameters_def)
  have r: "reachable (step mounted (SelectAircraft ''hot-air-balloon''))"
    by (intro reachable_step reachable_mounted) (simp add: aircraftPresets_def)
  note t = airspeed_range_except_balloon [of "SliderChange Airspeed 300" mounted 300]
  note u = airspeed_range_except_balloon
    [of Tick "step mounted (SelectAircraft ''hot-air-balloon'')" 300]
  from t w n a
  have 1: "50 \<le> airspeed (parameters (step mounted (SliderChange Airspeed 300)))
    \<and> airspeed (parameters (step mounted (SliderChange Airspeed 300))) \<le> 500" by blast
  from t w have 2: "airspeed (parameters (step mounted (SliderChange Airspeed 300))) = 300"
    by blast
  from t have 3: "airspeed (parameters (step mounted (SelectAircraft ''hot-air-balloon''))) = 30"
    by blast
  from u r have 4: "airspeed (parameters (step mounted (SelectAircraft ''hot-air-balloon''))) = 30
      \<or> 50 \<le> airspeed (parameters (step mounted (SelectAircraft ''hot-air-balloon'')))
        \<and> airspeed (parameters (step mounted (SelectAircraft ''hot-air-balloon''))) \<le> 500"
    by blast
  from w n a r 1 2 3 4 show ?thesis by blast
qed

section \<open>Completion of a tutorial step\<close>

lemma stepCompleted_declared:
  "st \<in> set tutorialSteps \<Longrightarrow> stepCompleted st v = inDeclaredRange st v"
  by (auto simp: tutorialSteps_def stepCompleted_def inDeclaredRange_def truthy_def)

lemma tutorialSteps_last: "isInformational (tutorialSteps ! 4) = Some True"
  by (simp add: tutorialSteps_def)

lemma tutorialFires_not_last:
  assumes "tutorialFires s"
  shows "currentTutorial s < length tutorialSteps - 1"
proof -
  from assms have "currentTutorial s < 5"
    and "isInformational (tutorialSteps ! currentTutorial s) \<noteq> Some True"
    by (simp_all add: tutorialFires_def tutorialSteps_first)
  then have "currentTutorial s \<noteq> 4" using tutorialSteps_last by metis
  with \<open>currentTutorial s < 5\<close> show ?thesis by (simp add: tutorialSteps_first)
qed

lemma tutorialFires_declared:
  "tutorialFires s \<longleftrightarrow>
     tutorialActive s \<and> currentTutorial s < length tutorialSteps
     \<and> isInformational (tutorialSteps ! currentTutorial s) \<noteq> Some True
     \<and> inDeclaredRange (tutorialSteps ! currentTutorial s)
          (getParam (parameters s) (target (tutorialSteps ! currentTutorial s)))
     \<and> stepId (tutorialSteps ! currentTutorial s) \<notin> set (completedSteps s)"
proof (cases "currentTutorial s < length tutorialSteps")
  case True
  then have "tutorialSteps ! currentTutorial s \<in> set tutorialSteps" by (rule nth_mem)
  then show ?thesis by (simp add: tutorialFires_def stepCompleted_declared)
next
  case False
  then show ?thesis by (simp add: tutorialFires_def)
qed

lemma advance_after_completion:
  assumes "tutorialFires s" and "advanceTimers s = []"
  shows "currentTutorial (step (tutorialEffect s) AdvanceTimeout) = currentTutorial s + 1"
proof -
  from assms have t: "advanceTimers (tutorialEffect s) = [currentTutorial s]"
    by (simp add: tutorialEffect_eq)
  from tutorialFires_not_last [OF assms(1)] show ?thesis
    by (simp add: step_fields t advanceCallback_def tutorialEffect_frame)
qed

text \<open>
  Claim C5. For the steps of \<^verbatim>\<open>tutorialSteps\<close> the test of the source is the declared
  range. While the tutorial is active and the current step is not informational, the id
  of the step is among the completed ones after the tutorial effect exactly when the value
  of the tracked parameter is in the declared range or the id was recorded before; when
  the value is in the range and the id is not yet recorded, the effect appends the id and
  sets one timeout, and the step is not the last one; otherwise the effect changes
  nothing. The effect never removes an id. On an informational step, and while the
  tutorial is not active, the effect changes nothing: no id is recorded and no timeout is
  set. When the timeout expires, the index of the current step goes up by one.
\<close>

theorem tutorial_completion:
  "(st \<in> set tutorialSteps \<longrightarrow> stepCompleted st v = inDeclaredRange st v)
   \<and> (tutorialActive s \<and> currentTutorial s < length tutorialSteps
       \<and> isInformational (tutorialSteps ! currentTutorial s) \<noteq> Some True \<longrightarrow>
        (stepId (tutorialSteps ! currentTutorial s) \<in> set (completedSteps (tutorialEffect s))
           \<longleftrightarrow> inDeclaredRange (tutorialSteps ! currentTutorial s)
                 (getParam (parameters s) (target (tutorialSteps ! currentTutorial s)))
               \<or> stepId (tutorialSteps ! currentTutorial s) \<in> set (completedSteps s))
        \<and> (inDeclaredRange (tutorialSteps ! currentTutorial s)
                 (getParam (parameters s) (target (tutorialSteps ! currentTutorial s)))
             \<and> stepId (tutorialSteps ! currentTutorial s) \<notin> set (completedSteps s) \<longrightarrow>
             completedSteps (tutorialEffect s)
               = completedSteps s @ [stepId (tutorialSteps ! currentTutorial s)]
             \<and> advanceTimers (tutorialEffect s) = advanceTimers s @ [currentTutorial s]
             \<and> currentTutorial s < length tutorialSteps - 1)
        \<and> (\<not> (inDeclaredRange (tutorialSteps ! currentTutorial s)
                 (getParam (parameters s) (target (tutorialSteps ! currentTutorial s)))
               \<and> stepId (tutorialSteps ! currentTutorial s) \<notin> set (completedSteps s)) \<longrightarrow>
             tutorialEffect s = s))
   \<and> set (completedSteps s) \<subseteq> set (completedSteps (tutorialEffect s))
   \<and> (currentTutorial s < length tutorialSteps
       \<and> isInformational (tutorialSteps ! currentTutorial s) = Some True \<longrightarrow>
        tutorialEffect s = s)
   \<and> (\<not> tutorialActive s \<longrightarrow> tutorialEffect s = s)
   \<and> (captured < length tutorialSteps - 1 \<longrightarrow>
        currentTutorial (handle AdvanceTimeout (s\<lparr>advanceTimers := captured # rest\<rparr>))
          = currentTutorial s + 1
        \<and> advanceTimers (handle AdvanceTimeout (s\<lparr>advanceTimers := captured # rest\<rparr>)) = rest)
   \<and> (tutorialFires s \<and> advanceTimers s = [] \<longrightarrow>
        currentTutorial (step (tutorialEffect s) AdvanceTimeout) = currentTutorial s + 1)"
proof -
  let ?st = "tutorialSteps ! currentTutorial s"
  let ?in = "inDeclaredRange ?st (getParam (parameters s) (target ?st))"
  have c1: "st \<in> set tutorialSteps \<longrightarrow> stepCompleted st v = inDeclaredRange st v"
    by (simp add: stepCompleted_declared)
  have fires: "tutorialFires s \<longleftrightarrow> ?in \<and> stepId ?st \<notin> set (completedSteps s)"
    if "tutorialActive s \<and> currentTutorial s < length tutorialSteps
       \<and> isInformational ?st \<noteq> Some True"
    using that by (simp add: tutorialFires_declared)
  have c2a: "stepId ?st \<in> set (completedSteps (tutorialEffect s))
      \<longleftrightarrow> ?in \<or> stepId ?st \<in> set (completedSteps s)"
    if "tutorialActive s \<and> currentTutorial s < length tutorialSteps
       \<and> isInformational ?st \<noteq> Some True"
    using fires [OF that] by (auto simp: tutorialEffect_eq)
  have c2b: "completedSteps (tutorialEffect s) = completedSteps s @ [stepId ?st]
      \<and> advanceTimers (tutorialEffect s) = advanceTimers s @ [currentTutorial s]
      \<and> currentTutorial s < length tutorialSteps - 1"
    if "tutorialActive s \<and> currentTutorial s < length tutorialSteps
       \<and> isInformational ?st \<noteq> Some True"
      and "?in \<and> stepId ?st \<notin> set (completedSteps s)"
  proof -
    from fires [OF that(1)] that(2) have f: "tutorialFires s" by simp
    from f tutorialFires_not_last [OF f] show ?thesis by (simp add: tutorialEffect_eq)
  qed
  have c2c: "tutorialEffect s = s"
    if "tutorialActive s \<and> currentTutorial s < length tutorialSteps
       \<and> isInformational ?st \<noteq> Some True"
      and "\<not> (?in \<and> stepId ?st \<notin> set (completedSteps s))"
    using fires [OF that(1)] that(2) by (simp add: tutorialEffect_eq)
  have c3: "set (completedSteps s) \<subseteq> set (completedSteps (tutorialEffect s))"
    by (auto simp: tutorialEffect_eq)
  have c4: "tutorialEffect s = s"
    if "currentTutorial s < length tutorialSteps \<and> isInformational ?st = Some True"
    using that by (simp add: tutorialEffect_eq tutorialFires_def)
  have c5: "tutorialEffect s = s" if "\<not> tutorialActive s"
    using that by (simp add: tutorialEffect_eq tutorialFires_def)
  have c6: "currentTutorial (handle AdvanceTimeout (s\<lparr>advanceTimers := captured # rest\<rparr>))
          = currentTutorial s + 1
        \<and> advanceTimers (handle AdvanceTimeout (s\<lparr>advanceTimers := captured # rest\<rparr>)) = rest"
    if "captured < length tutorialSteps - 1"
    using that by (simp add: advanceCallback_def)
  have c7: "currentTutorial (step (tutorialEffect s) AdvanceTimeout) = currentTutorial s + 1"
    if "tutorialFires s \<and> advanceTimers s = []"
    using that by (simp add: advance_after_completion)
  from c1 c2a c2b c2c c3 c4 c5 c6 c7 show ?thesis by blast
qed

theorem tutorial_completion_witness:
  "tutorialSteps ! 1 \<in> set tutorialSteps
   \<and> stepCompleted (tutorialSteps ! 1) 10 = inDeclaredRange (tutorialSteps ! 1) 10
   \<and> tutorialFires (startTutorial mounted)
   \<and> completedSteps (tutorialEffect (startTutorial mounted)) = [1]
   \<and> advanceTimers (tutorialEffect (startTutorial mounted)) = [0]
   \<and> currentTutorial (step (tutorialEffect (startTutorial mounted)) AdvanceTimeout) = 1
   \<and> tutorialEffect ((startTutorial mounted)\<lparr>currentTutorial := 1\<rparr>)
       = (startTutorial mounted)\<lparr>currentTutorial := 1\<rparr>
   \<and> tutorialEffect ((startTutorial mounted)\<lparr>currentTutorial := 4\<rparr>)
       = (startTutorial mounted)\<lparr>currentTutorial := 4\<rparr>
   \<and> tutorialEffect mounted = mounted
   \<and> currentTutorial (handle AdvanceTimeout (mounted\<lparr>advanceTimers := [0]\<rparr>)) = 1"
proof -
  let ?a = "startTutorial mounted"
  let ?b = "?a\<lparr>currentTutorial := 1\<rparr>"
  let ?c = "?a\<lparr>currentTutorial := 4\<rparr>"
  have len: "length tutorialSteps = 5" by (rule tutorialSteps_first)
  have second: "tutorialSteps ! Suc 0 = \<lparr>stepId = 2, title = ''Angle of Attack Effects'',
      target = AngleOfAttack, minValue = Some 8, maxValue = Some 12, isInformational = None\<rparr>"
    by (simp add: tutorialSteps_def)
  have a: "tutorialActive ?a" "currentTutorial ?a = 0" "completedSteps ?a = []"
    "advanceTimers ?a = []" "parameters ?a = initialParameters"
    by (simp_all add: startTutorial_fields mounted_fields)
  have m: "tutorialSteps ! 1 \<in> set tutorialSteps" by (rule nth_mem) (simp add: len)
  have pa: "tutorialActive ?a \<and> currentTutorial ?a < length tutorialSteps
       \<and> isInformational (tutorialSteps ! currentTutorial ?a) \<noteq> Some True"
    by (simp add: a len tutorialSteps_first)
  have ia: "inDeclaredRange (tutorialSteps ! currentTutorial ?a)
       (getParam (parameters ?a) (target (tutorialSteps ! currentTutorial ?a)))
     \<and> stepId (tutorialSteps ! currentTutorial ?a) \<notin> set (completedSteps ?a)"
    by (simp add: a tutorialSteps_first inDeclaredRange_def initialParameters_def)
  have fa: "tutorialFires ?a"
    using pa ia by (simp add: tutorialFires_declared)
  have pb: "tutorialActive ?b \<and> currentTutorial ?b < length tutorialSteps
       \<and> isInformational (tutorialSteps ! currentTutorial ?b) \<noteq> Some True"
    by (simp add: a len second)
  have ib: "\<not> (inDeclaredRange (tutorialSteps ! currentTutorial ?b)
       (getParam (parameters ?b) (target (tutorialSteps ! currentTutorial ?b)))
     \<and> stepId (tutorialSteps ! currentTutorial ?b) \<notin> set (completedSteps ?b))"
    by (simp add: a second inDeclaredRange_def initialParameters_def)
  have pc: "currentTutorial ?c < length tutorialSteps
       \<and> isInformational (tutorialSteps ! currentTutorial ?c) = Some True"
    by (simp add: len tutorialSteps_last)
  have pm: "\<not> tutorialActive mounted" by (simp add: mounted_fields)
  have cap: "(0::nat) < length tutorialSteps - 1" by (simp add: len)
  note ta = tutorial_completion [where s = ?a and st = "tutorialSteps ! 1" and v = 10
      and captured = 0 and rest = "[]"]
  note tb = tutorial_completion [where s = ?b and st = "tutorialSteps ! 1" and v = 10
      and captured = 0 and rest = "[]"]
  note tc = tutorial_completion [where s = ?c and st = "tutorialSteps ! 1" and v = 10
      and captured = 0 and rest = "[]"]
  note tm = tutorial_completion [where s = mounted and st = "tutorialSteps ! 1" and v = 10
      and captured = 0 and rest = "[]"]
  from ta m have 1: "stepCompleted (tutorialSteps ! 1) 10 = inDeclaredRange (tutorialSteps ! 1) 10"
    by blast
  from ta pa ia have "completedSteps (tutorialEffect ?a)
               = completedSteps ?a @ [stepId (tutorialSteps ! currentTutorial ?a)]
             \<and> advanceTimers (tutorialEffect ?a) = advanceTimers ?a @ [currentTutorial ?a]"
    by blast
  then have 2: "completedSteps (tutorialEffect ?a) = [1] \<and> advanceTimers (tutorialEffect ?a) = [0]"
    by (simp add: a tutorialSteps_first)
  from ta fa a(4)
  have "currentTutorial (step (tutorialEffect ?a) AdvanceTimeout) = currentTutorial ?a + 1"
    by blast
  then have 3: "currentTutorial (step (tutorialEffect ?a) AdvanceTimeout) = 1"
    by (simp add: a)
  from tb pb ib have 4: "tutorialEffect ?b = ?b" by blast
  from tc pc have 5: "tutorialEffect ?c = ?c" by blast
  from tm pm have 6: "tutorialEffect mounted = mounted" by blast
  from tm cap
  have "currentTutorial (handle AdvanceTimeout (mounted\<lparr>advanceTimers := [0]\<rparr>))
      = currentTutorial mounted + 1"
    by blast
  then have 7: "currentTutorial (handle AdvanceTimeout (mounted\<lparr>advanceTimers := [0]\<rparr>)) = 1"
    by (simp add: mounted_fields)
  from m 1 fa 2 3 4 5 6 7 show ?thesis by blast
qed

end
